theory Spec2Isabelle
  imports Complex_Main "HOL-Library.Word"
begin

section \<open>C float values\<close>

text \<open>
  Every numeric variable of the program has the C type \<^verbatim>\<open>float\<close>. A value of that type
  is a finite number, one of the two infinities, or a NaN. The model keeps this
  distinction, because the program divides by quantities that can be zero and never
  checks a result: a finite value is a real number and arithmetic on finite values is
  exact real arithmetic (no rounding, no overflow or underflow, \<^verbatim>\<open>float\<close> and
  \<^verbatim>\<open>double\<close> intermediates not distinguished, zero without a sign and taken as
  \<open>+0\<close>); the special values follow IEEE 754 and Annex F of the C standard.
\<close>

datatype cfloat = Fin real | PInf | NInf | NaN


instantiation cfloat :: "{plus, uminus, minus, times, divide, ord}"
begin

fun plus_cfloat :: "cfloat \<Rightarrow> cfloat \<Rightarrow> cfloat" where
  "NaN + y = NaN"
| "x + NaN = NaN"
| "Fin a + Fin b = Fin (a + b)"
| "Fin a + PInf = PInf"
| "Fin a + NInf = NInf"
| "PInf + Fin b = PInf"
| "PInf + PInf = PInf"
| "PInf + NInf = NaN"
| "NInf + Fin b = NInf"
| "NInf + NInf = NInf"
| "NInf + PInf = NaN"

fun uminus_cfloat :: "cfloat \<Rightarrow> cfloat" where
  "- Fin a = Fin (- a)"
| "- PInf = NInf"
| "- NInf = PInf"
| "- NaN = NaN"

definition minus_cfloat :: "cfloat \<Rightarrow> cfloat \<Rightarrow> cfloat" where
  "minus_cfloat x y = x + (- y)"

fun times_cfloat :: "cfloat \<Rightarrow> cfloat \<Rightarrow> cfloat" where
  "NaN * y = NaN"
| "x * NaN = NaN"
| "Fin a * Fin b = Fin (a * b)"
| "Fin a * PInf = (if a = 0 then NaN else if 0 < a then PInf else NInf)"
| "Fin a * NInf = (if a = 0 then NaN else if 0 < a then NInf else PInf)"
| "PInf * Fin b = (if b = 0 then NaN else if 0 < b then PInf else NInf)"
| "NInf * Fin b = (if b = 0 then NaN else if 0 < b then NInf else PInf)"
| "PInf * PInf = PInf"
| "PInf * NInf = NInf"
| "NInf * PInf = NInf"
| "NInf * NInf = PInf"

fun divide_cfloat :: "cfloat \<Rightarrow> cfloat \<Rightarrow> cfloat" where
  "divide_cfloat NaN y = NaN"
| "divide_cfloat x NaN = NaN"
| "divide_cfloat (Fin a) (Fin b) =
     (if b = 0 then (if a = 0 then NaN else if 0 < a then PInf else NInf)
      else Fin (a / b))"
| "divide_cfloat (Fin a) PInf = Fin 0"
| "divide_cfloat (Fin a) NInf = Fin 0"
| "divide_cfloat PInf (Fin b) = (if 0 \<le> b then PInf else NInf)"
| "divide_cfloat NInf (Fin b) = (if 0 \<le> b then NInf else PInf)"
| "divide_cfloat PInf PInf = NaN"
| "divide_cfloat PInf NInf = NaN"
| "divide_cfloat NInf PInf = NaN"
| "divide_cfloat NInf NInf = NaN"

fun less_cfloat :: "cfloat \<Rightarrow> cfloat \<Rightarrow> bool" where
  "NaN < y = False"
| "x < NaN = False"
| "Fin a < Fin b = (a < b)"
| "Fin a < PInf = True"
| "Fin a < NInf = False"
| "PInf < y = False"
| "NInf < Fin b = True"
| "NInf < PInf = True"
| "NInf < NInf = False"

fun less_eq_cfloat :: "cfloat \<Rightarrow> cfloat \<Rightarrow> bool" where
  "NaN \<le> y = False"
| "x \<le> NaN = False"
| "Fin a \<le> Fin b = (a \<le> b)"
| "Fin a \<le> PInf = True"
| "Fin a \<le> NInf = False"
| "PInf \<le> Fin b = False"
| "PInf \<le> PInf = True"
| "PInf \<le> NInf = False"
| "NInf \<le> y = True"

instance ..

end

instantiation cfloat :: inverse
begin

definition inverse_cfloat :: "cfloat \<Rightarrow> cfloat" where
  "inverse_cfloat x = divide (Fin 1) x"

instance ..

end

text \<open>
  The functions of \<^verbatim>\<open>math.h\<close> that the program calls. The exponent of
  \<^verbatim>\<open>powf\<close> is a literal at every call, so it is a real number here.
\<close>

fun fabsf :: "cfloat \<Rightarrow> cfloat" where
  "fabsf (Fin a) = Fin \<bar>a\<bar>"
| "fabsf PInf = PInf"
| "fabsf NInf = PInf"
| "fabsf NaN = NaN"

fun sqrtf :: "cfloat \<Rightarrow> cfloat" where
  "sqrtf (Fin a) = (if a < 0 then NaN else Fin (sqrt a))"
| "sqrtf PInf = PInf"
| "sqrtf NInf = NaN"
| "sqrtf NaN = NaN"

fun sinf :: "cfloat \<Rightarrow> cfloat" where
  "sinf (Fin a) = Fin (sin a)"
| "sinf PInf = NaN"
| "sinf NInf = NaN"
| "sinf NaN = NaN"

fun expf :: "cfloat \<Rightarrow> cfloat" where
  "expf (Fin a) = Fin (exp a)"
| "expf PInf = PInf"
| "expf NInf = Fin 0"
| "expf NaN = NaN"

definition is_integer :: "real \<Rightarrow> bool" where
  "is_integer y = (of_int \<lfloor>y\<rfloor> = y)"

fun powf :: "cfloat \<Rightarrow> real \<Rightarrow> cfloat" where
  "powf (Fin a) y =
     (if y = 0 then Fin 1
      else if 0 < a then Fin (a powr y)
      else if a = 0 then (if y < 0 then PInf else Fin 0)
      else if is_integer y then Fin (a powi \<lfloor>y\<rfloor>)
      else NaN)"
| "powf PInf y = (if y = 0 then Fin 1 else if y < 0 then Fin 0 else PInf)"
| "powf NInf y =
     (if y = 0 then Fin 1
      else if y < 0 then Fin 0
      else if is_integer y \<and> odd \<lfloor>y\<rfloor> then NInf
      else PInf)"
| "powf NaN y = (if y = 0 then Fin 1 else NaN)"

declare powf.simps [simp del]

text \<open>
  The range of the type. A finite result that is stored in a \<^verbatim>\<open>float\<close> becomes an
  infinity when its magnitude reaches \<^verbatim>\<open>FLT_MAX\<close> plus half a unit in the last place,
  \<^verbatim>\<open>2^128 - 2^103\<close>, and zero when its magnitude is at most half the least
  subnormal number, \<^verbatim>\<open>2^-150\<close>. \<open>float_of\<close> is this store; the rounding of a value
  inside the range is left out. The functions \<open>safety_factor_profile\<close> and
  \<open>stability_updates\<close> carry it at their stores, the other functions do not.
\<close>

definition FLT_OVERFLOW :: real where
  "FLT_OVERFLOW = 2 ^ 128 - 2 ^ 103"

definition FLT_UNDERFLOW :: real where
  "FLT_UNDERFLOW = 1 / 2 ^ 150"

fun float_of :: "cfloat \<Rightarrow> cfloat" where
  "float_of (Fin a) =
     (if FLT_OVERFLOW \<le> a then PInf
      else if a \<le> - FLT_OVERFLOW then NInf
      else if \<bar>a\<bar> \<le> FLT_UNDERFLOW then Fin 0
      else Fin a)"
| "float_of PInf = PInf"
| "float_of NInf = NInf"
| "float_of NaN = NaN"


text \<open>
  The \<^verbatim>\<open>float\<close> literals of the stability and disruption code, as the binary32
  numbers that the compiler stores for them: \<^verbatim>\<open>0.1f\<close>, \<^verbatim>\<open>0.05f\<close>, \<^verbatim>\<open>0.3f\<close>,
  \<^verbatim>\<open>0.7f\<close> and \<^verbatim>\<open>0.95f\<close>. (\<^verbatim>\<open>0.5f\<close>, \<^verbatim>\<open>3.0f\<close>, \<^verbatim>\<open>3.5f\<close> and \<^verbatim>\<open>100.0f\<close>
  are binary32 numbers as written.)
\<close>

definition lit_0_1f :: cfloat where
  "lit_0_1f = Fin (13421773 / 2 ^ 27)"

definition lit_0_05f :: cfloat where
  "lit_0_05f = Fin (13421773 / 2 ^ 28)"

definition lit_0_3f :: cfloat where
  "lit_0_3f = Fin (5033165 / 2 ^ 24)"

definition lit_0_7f :: cfloat where
  "lit_0_7f = Fin (11744051 / 2 ^ 24)"

definition lit_0_95f :: cfloat where
  "lit_0_95f = Fin (15938355 / 2 ^ 24)"

section \<open>Device parameters and data structures\<close>

text \<open>The macros of \<^verbatim>\<open>npe_config.h\<close> that the modelled functions use.\<close>

definition TOKAMAK_MAJOR_RADIUS :: cfloat where
  "TOKAMAK_MAJOR_RADIUS = Fin 1.8"

definition TOKAMAK_MINOR_RADIUS :: cfloat where
  "TOKAMAK_MINOR_RADIUS = Fin 0.6"

definition TOKAMAK_TOROIDAL_FIELD :: cfloat where
  "TOKAMAK_TOROIDAL_FIELD = Fin 5.3"

definition SAFETY_FACTOR_Q95_MIN :: cfloat where
  "SAFETY_FACTOR_Q95_MIN = Fin 3.0"

definition BETA_NORMAL_LIMIT :: cfloat where
  "BETA_NORMAL_LIMIT = Fin 3.5"

text \<open>\<^verbatim>\<open>0.15f\<close> is the binary32 number \<^verbatim>\<open>5033165 / 2^25\<close>, a little above 0.15.\<close>

definition VERTICAL_DISPLACEMENT_MAX :: cfloat where
  "VERTICAL_DISPLACEMENT_MAX = Fin (5033165 / 2 ^ 25)"

definition NUM_PF_COILS :: nat where
  "NUM_PF_COILS = 10"

definition NUM_VERTICAL_COILS :: nat where
  "NUM_VERTICAL_COILS = 4"

definition NUM_HORIZONTAL_COILS :: nat where
  "NUM_HORIZONTAL_COILS = 4"

definition NUM_HEATING_SYSTEMS :: nat where
  "NUM_HEATING_SYSTEMS = 3"

text \<open>The macros of the physics file, and \<^verbatim>\<open>M_PI\<close> of \<^verbatim>\<open>math.h\<close>.\<close>

definition M_PI :: cfloat where
  "M_PI = Fin pi"

definition MU0 :: cfloat where
  "MU0 = Fin (4 / 10 ^ 7) * M_PI"

definition ELECTRON_CHARGE :: cfloat where
  "ELECTRON_CHARGE = Fin (1.602 / 10 ^ 19)"

definition ELECTRON_MASS :: cfloat where
  "ELECTRON_MASS = Fin (9.109 / 10 ^ 31)"

definition PROTON_MASS :: cfloat where
  "PROTON_MASS = Fin (1.673 / 10 ^ 27)"

text \<open>
  \<^verbatim>\<open>PlasmaState\<close>. The fields are those of the header, in its order, and after them
  \<open>stored_energy\<close>: \<^verbatim>\<open>advance_plasma_state\<close> reads and writes
  \<^verbatim>\<open>state->stored_energy\<close>, a field that the header's declaration of the struct
  does not list.
\<close>

record PlasmaState =
  plasma_current :: cfloat
  safety_factor_q95 :: cfloat
  beta_normalized :: cfloat
  li_inductance :: cfloat
  radial_position :: cfloat
  vertical_position :: cfloat
  elongation :: cfloat
  triangularity :: cfloat
  temperature_core :: cfloat
  temperature_edge :: cfloat
  density_core :: cfloat
  density_edge :: cfloat
  mhd_activity_level :: cfloat
  ntm_amplitude :: cfloat
  elm_frequency :: cfloat
  neutron_rate :: cfloat
  impurity_concentration :: cfloat
  radiation_power :: cfloat
  stored_energy :: cfloat

text \<open>
  One element of \<^verbatim>\<open>heating_systems\<close>. The C field \<^verbatim>\<open>power\<close> is \<open>power_hs\<close> here,
  because \<open>power\<close> is the exponentiation of HOL.
\<close>

record HeatingSystem =
  power_hs :: cfloat
  frequency :: cfloat
  enabled :: bool

datatype ControllerState =
  PSQ_STATE_INIT
| PSQ_STATE_RAMP_UP
| PSQ_STATE_FLAT_TOP
| PSQ_STATE_RAMP_DOWN
| PSQ_STATE_DISRUPTION
| PSQ_STATE_MITIGATION
| PSQ_STATE_SAFE_SHUTDOWN

text \<open>
  \<^verbatim>\<open>PlasmaControlSystem\<close>. Arrays are lists; \<open>wf_control\<close> below gives them the
  lengths that the C types fix. The C fields \<^verbatim>\<open>energy_confinement_time\<close> and
  \<^verbatim>\<open>stored_energy\<close> carry the suffix \<open>_ctl\<close>: the first name is also a function
  of the program, the second a field of the plasma state.
\<close>

record PlasmaControlSystem =
  current_state :: PlasmaState
  target_state :: PlasmaState
  pf_coil_currents :: "cfloat list"
  vertical_coil_currents :: "cfloat list"
  horizontal_coil_currents :: "cfloat list"
  heating_systems :: "HeatingSystem list"
  fuel_injection_rate :: cfloat
  impurity_injection_rate :: cfloat
  controller_state :: ControllerState
  simulation_time :: cfloat
  iteration_count :: "32 word"
  state_history :: "cfloat list list"
  disruption_detected :: bool
  mitigation_activated :: bool
  disruption_warning_time :: cfloat
  energy_confinement_time_ctl :: cfloat
  fusion_gain_Q :: cfloat
  stored_energy_ctl :: cfloat

definition wf_control :: "PlasmaControlSystem \<Rightarrow> bool" where
  "wf_control control =
     (length (pf_coil_currents control) = NUM_PF_COILS \<and>
      length (vertical_coil_currents control) = NUM_VERTICAL_COILS \<and>
      length (horizontal_coil_currents control) = NUM_HORIZONTAL_COILS \<and>
      length (heating_systems control) = NUM_HEATING_SYSTEMS)"

section \<open>Physics kernels\<close>

text \<open>
  \<^verbatim>\<open>grad_shafranov_solution\<close>. The local variable \<^verbatim>\<open>r\<close>, the normalized radius of
  the point, is a definition of its own, so that statements can name it.
  \<^verbatim>\<open>params\<close> is a pointer to the caller's array, a list here. The function reads
  \<^verbatim>\<open>params[0]\<close> on the inside branch only; with an empty array this read is
  outside the array and the result is \<open>None\<close>.
\<close>

definition normalized_radius :: "cfloat \<Rightarrow> cfloat \<Rightarrow> cfloat" where
  "normalized_radius R Z =
     (let a = TOKAMAK_MINOR_RADIUS;
          R0 = TOKAMAK_MAJOR_RADIUS
      in sqrtf ((R - R0) * (R - R0) + Z * Z) / a)"

definition grad_shafranov_solution :: "cfloat \<Rightarrow> cfloat \<Rightarrow> cfloat list \<Rightarrow> cfloat option" where
  "grad_shafranov_solution R Z params =
     (let r = normalized_radius R Z
      in if Fin 1 \<le> r then Some (Fin 0)
         else (case params of
                 [] \<Rightarrow> None
               | p0 # _ \<Rightarrow> (let psi = p0 * (Fin 1 - r * r) in Some psi)))"

text \<open>
  \<^verbatim>\<open>safety_factor_profile\<close>. \<^verbatim>\<open>I_p\<close> and \<^verbatim>\<open>q\<close> are \<^verbatim>\<open>float\<close> variables: the
  product and the quotient, computed in \<^verbatim>\<open>double\<close>, are stored with \<open>float_of\<close>; the
  shaping factor is a \<^verbatim>\<open>float\<close> expression.
\<close>

definition safety_factor_profile :: "cfloat \<Rightarrow> PlasmaState \<Rightarrow> cfloat" where
  "safety_factor_profile r_normalized state =
     (let R0 = TOKAMAK_MAJOR_RADIUS;
          B_toroidal = TOKAMAK_TOROIDAL_FIELD;
          I_p = float_of (plasma_current state * Fin (10 ^ 6));
          q = float_of ((Fin 2 * M_PI * B_toroidal * r_normalized * r_normalized *
                         TOKAMAK_MINOR_RADIUS * TOKAMAK_MINOR_RADIUS) /
                        (MU0 * R0 * I_p));
          q = float_of (q * float_of (Fin 1 + Fin 0.5 * r_normalized * r_normalized))
      in q)"

definition calculate_beta :: "PlasmaState \<Rightarrow> cfloat" where
  "calculate_beta state =
     (let pressure_avg = (density_core state * Fin (10 ^ 19) * temperature_core state *
                          Fin (1.602 / 10 ^ 16)) / Fin 3;
          B_total = sqrtf (TOKAMAK_TOROIDAL_FIELD * TOKAMAK_TOROIDAL_FIELD +
                           powf (MU0 * plasma_current state * Fin (10 ^ 6) /
                                 (Fin 2 * M_PI * TOKAMAK_MINOR_RADIUS)) 2);
          beta = Fin 2 * MU0 * pressure_avg / (B_total * B_total)
      in beta)"

definition calculate_beta_normalized :: "PlasmaState \<Rightarrow> cfloat" where
  "calculate_beta_normalized state =
     (let beta = calculate_beta state * Fin 100;
          beta_N = beta * TOKAMAK_MINOR_RADIUS * TOKAMAK_TOROIDAL_FIELD /
                   plasma_current state
      in beta_N)"

text \<open>
  \<^verbatim>\<open>ecrh_heating_model\<close>. The local variables \<^verbatim>\<open>f_ce\<close> and \<^verbatim>\<open>absorption\<close>
  are definitions of their own, so that statements can name them. The function writes
  the entries 0 to 9 of the caller's buffer \<^verbatim>\<open>deposition_profile\<close> and returns
  \<^verbatim>\<open>delta_T\<close>; the model returns both, and \<open>None\<close> when the buffer has fewer than
  10 entries (the loop would write past its end).
\<close>

definition ecrh_f_ce :: cfloat where
  "ecrh_f_ce = ELECTRON_CHARGE * TOKAMAK_TOROIDAL_FIELD / (Fin 2 * M_PI * ELECTRON_MASS)"

definition ecrh_absorption :: "cfloat \<Rightarrow> cfloat" where
  "ecrh_absorption freq =
     (let f_ce = ecrh_f_ce
      in if fabsf (freq - f_ce) < Fin (10 ^ 9) then Fin 0.8
         else Fin 0.3 * expf (- powf (freq - f_ce) 2 / (Fin 2 * Fin (10 ^ 18))))"

definition ecrh_profile_loop :: "cfloat list \<Rightarrow> cfloat list" where
  "ecrh_profile_loop deposition_profile =
     foldl (\<lambda>prof i.
              let r = Fin (real i) / Fin 10
              in prof[i := expf (- powf (r - Fin 0.5) 2 / Fin 0.1)])
           deposition_profile [0..<10]"

definition ecrh_heating_model ::
  "cfloat \<Rightarrow> cfloat \<Rightarrow> PlasmaState \<Rightarrow> cfloat list \<Rightarrow> (cfloat \<times> cfloat list) option" where
  "ecrh_heating_model pwr freq state deposition_profile =
     (if length deposition_profile < 10 then None
      else
        let absorption = ecrh_absorption freq;
            power_deposited = pwr * absorption;
            deposition_profile = ecrh_profile_loop deposition_profile;
            delta_T = power_deposited /
                      (density_core state * Fin (10 ^ 19) * ELECTRON_CHARGE * Fin 1000)
        in Some (delta_T, deposition_profile))"


section \<open>State advancement\<close>

text \<open>
  \<^verbatim>\<open>advance_plasma_state\<close> updates the plasma state in place and only reads the
  control structure. \<open>advance_plasma_state\<close> below is the body of the function on a state
  held apart from the control structure, and returns both; which object the pointer
  \<^verbatim>\<open>state\<close> designates is the matter of \<open>advance_plasma_state_call\<close> after it. The value of \<^verbatim>\<open>(float)rand() / RAND_MAX\<close> is the argument
  \<open>rand_ratio\<close>: a quotient of a non-negative \<^verbatim>\<open>int\<close> by a positive one, so a finite
  number.

  The body of the C function is a sequence of commented sections. Each section is one
  definition below, taking the state that the sections before it have left;
  \<open>advance_plasma_state\<close> runs them in the order of the source. The local variable
  \<^verbatim>\<open>plasma_volume\<close>, computed in the energy section and used by the two sections
  after it, is passed to them.
\<close>

text \<open>Current evolution.\<close>

definition current_evolution :: "PlasmaState \<Rightarrow> PlasmaControlSystem \<Rightarrow> cfloat \<Rightarrow> PlasmaState" where
  "current_evolution state control dt =
     (let Lp = Fin (5 / 10 ^ 7);
          Rp = Fin (1 / 10 ^ 6);
          V_loop = pf_coil_currents control ! 0 * Fin 0.1;
          dIp_dt = (V_loop - Rp * plasma_current state * Fin (10 ^ 6)) / Lp
      in state\<lparr>plasma_current := plasma_current state + dIp_dt * dt / Fin (10 ^ 6)\<rparr>)"

text \<open>Energy balance: the heating loop, the stored energy, then the core temperature.\<close>

definition heating_power_sum :: "HeatingSystem list \<Rightarrow> cfloat" where
  "heating_power_sum hs =
     foldl (\<lambda>P_heating i. if enabled (hs ! i) then P_heating + power_hs (hs ! i) else P_heating)
           (Fin 0) [0..<NUM_HEATING_SYSTEMS]"

definition energy_balance :: "PlasmaState \<Rightarrow> PlasmaControlSystem \<Rightarrow> cfloat \<Rightarrow> PlasmaState" where
  "energy_balance state control dt =
     (let P_heating = heating_power_sum (heating_systems control);
          P_loss = stored_energy state / energy_confinement_time_ctl control;
          dW_dt = P_heating - P_loss
      in state\<lparr>stored_energy := stored_energy state + dW_dt * dt\<rparr>)"

definition plasma_volume_of :: "PlasmaState \<Rightarrow> cfloat" where
  "plasma_volume_of state =
     Fin 2 * M_PI * M_PI * TOKAMAK_MAJOR_RADIUS *
     TOKAMAK_MINOR_RADIUS * TOKAMAK_MINOR_RADIUS *
     elongation state"

definition temperature_update :: "PlasmaState \<Rightarrow> cfloat \<Rightarrow> PlasmaState" where
  "temperature_update state plasma_volume =
     state\<lparr>temperature_core := stored_energy state * Fin (10 ^ 6) /
             (Fin 1.5 * density_core state * Fin (10 ^ 19) *
              plasma_volume * ELECTRON_CHARGE * Fin 1000)\<rparr>"

text \<open>Density evolution.\<close>

definition density_evolution ::
  "PlasmaState \<Rightarrow> PlasmaControlSystem \<Rightarrow> cfloat \<Rightarrow> cfloat \<Rightarrow> PlasmaState" where
  "density_evolution state control dt plasma_volume =
     (let S_in = fuel_injection_rate control;
          tau_p = Fin 10;
          S_out = density_core state * Fin (10 ^ 19) * plasma_volume / tau_p;
          dn_dt = (S_in - S_out) / plasma_volume
      in state\<lparr>density_core := density_core state + dn_dt * dt / Fin (10 ^ 19)\<rparr>)"

text \<open>Position evolution.\<close>

definition vertical_force_sum :: "cfloat list \<Rightarrow> cfloat \<Rightarrow> cfloat" where
  "vertical_force_sum coils Ip =
     foldl (\<lambda>F_vertical i. F_vertical + coils ! i * Ip * Fin 0.1)
           (Fin 0) [0..<NUM_VERTICAL_COILS]"

definition position_evolution ::
  "PlasmaState \<Rightarrow> PlasmaControlSystem \<Rightarrow> cfloat \<Rightarrow> cfloat \<Rightarrow> PlasmaState" where
  "position_evolution state control dt plasma_volume =
     (let mass_plasma = density_core state * Fin (10 ^ 19) * plasma_volume *
                        (PROTON_MASS + ELECTRON_MASS);
          F_vertical = vertical_force_sum (vertical_coil_currents control) (plasma_current state);
          damping = Fin 0.1;
          dVz_dt = (F_vertical - damping * vertical_position state) / mass_plasma
      in state\<lparr>vertical_position := vertical_position state +
                  (vertical_position state * dt + Fin 0.5 * dVz_dt * dt * dt)\<rparr>)"

text \<open>
  Stability updates. \<^verbatim>\<open>simulation_time * 100.0f\<close> is a \<^verbatim>\<open>float\<close> product: it is an
  infinity when it leaves the range.
\<close>

definition stability_updates :: "PlasmaState \<Rightarrow> PlasmaControlSystem \<Rightarrow> real \<Rightarrow> PlasmaState" where
  "stability_updates state control rand_ratio =
     (let state = state\<lparr>safety_factor_q95 := safety_factor_profile lit_0_95f state\<rparr>;
          state = state\<lparr>beta_normalized := calculate_beta_normalized state\<rparr>
      in state\<lparr>mhd_activity_level :=
                  lit_0_1f * sinf (float_of (simulation_time control * Fin 100)) +
                  lit_0_05f * Fin rand_ratio\<rparr>)"

text \<open>Disruption conditions.\<close>

definition disruption_conditions :: "PlasmaState \<Rightarrow> PlasmaState" where
  "disruption_conditions state =
     (let state = (if safety_factor_q95 state < SAFETY_FACTOR_Q95_MIN
                   then state\<lparr>mhd_activity_level := mhd_activity_level state + Fin 0.5\<rparr>
                   else state);
          state = (if beta_normalized state > BETA_NORMAL_LIMIT
                   then state\<lparr>mhd_activity_level := mhd_activity_level state + lit_0_3f\<rparr>
                   else state);
          state = (if fabsf (vertical_position state) > VERTICAL_DISPLACEMENT_MAX
                   then state\<lparr>mhd_activity_level := mhd_activity_level state + lit_0_7f\<rparr>
                   else state)
      in state)"

definition advance_plasma_state ::
  "PlasmaState \<Rightarrow> PlasmaControlSystem \<Rightarrow> cfloat \<Rightarrow> real \<Rightarrow> PlasmaState \<times> PlasmaControlSystem" where
  "advance_plasma_state state control dt rand_ratio =
     (let state = current_evolution state control dt;
          state = energy_balance state control dt;
          plasma_volume = plasma_volume_of state;
          state = temperature_update state plasma_volume;
          state = density_evolution state control dt plasma_volume;
          state = position_evolution state control dt plasma_volume;
          state = stability_updates state control rand_ratio;
          state = disruption_conditions state
      in (state, control))"

text \<open>
  The call. \<^verbatim>\<open>state\<close> and \<^verbatim>\<open>control\<close> are pointers, and the control structure has
  two plasma states of its own, \<^verbatim>\<open>current_state\<close> and \<^verbatim>\<open>target_state\<close>: \<^verbatim>\<open>state\<close>
  may point to an object outside the control structure or to one of these two members.
  The function reads, through \<^verbatim>\<open>control\<close>, only members that lie outside the two
  plasma states (coil currents, heating systems, fuel rate, confinement time, clock), so
  a write through \<^verbatim>\<open>state\<close> never changes a value it reads through \<^verbatim>\<open>control\<close>:
  the call loads the state that the pointer designates, runs the body on it, and stores
  the result where the pointer designates. \<open>advance_plasma_state_call\<close> returns the
  designated state and the control structure as they are after the call.
\<close>

datatype StatePointer = Separate_object PlasmaState | Current_state_member | Target_state_member

definition advance_plasma_state_call ::
  "StatePointer \<Rightarrow> PlasmaControlSystem \<Rightarrow> cfloat \<Rightarrow> real \<Rightarrow> PlasmaState \<times> PlasmaControlSystem" where
  "advance_plasma_state_call pointer control dt rand_ratio =
     (case pointer of
        Separate_object state \<Rightarrow>
          (fst (advance_plasma_state state control dt rand_ratio), control)
      | Current_state_member \<Rightarrow>
          (let state = fst (advance_plasma_state (current_state control) control dt rand_ratio)
           in (state, control\<lparr>current_state := state\<rparr>))
      | Target_state_member \<Rightarrow>
          (let state = fst (advance_plasma_state (target_state control) control dt rand_ratio)
           in (state, control\<lparr>target_state := state\<rparr>)))"

section \<open>Example inputs\<close>

text \<open>
  The state and the control structure of the specification's end-to-end scenario: a
  plasma current of 15, core density 1, core temperature 15, elongation 1.7, stored
  energy 5, vertical position 0; every coil current 0, the first heating system enabled
  at power 10 and the other two disabled, a tracked confinement time of 5 seconds. The
  fields that the scenario leaves open are 0.
\<close>

definition scenario_state :: PlasmaState where
  "scenario_state =
     \<lparr>plasma_current = Fin 15, safety_factor_q95 = Fin 0, beta_normalized = Fin 0,
      li_inductance = Fin 0, radial_position = Fin 0, vertical_position = Fin 0,
      elongation = Fin 1.7, triangularity = Fin 0, temperature_core = Fin 15,
      temperature_edge = Fin 0, density_core = Fin 1, density_edge = Fin 0,
      mhd_activity_level = Fin 0, ntm_amplitude = Fin 0, elm_frequency = Fin 0,
      neutron_rate = Fin 0, impurity_concentration = Fin 0, radiation_power = Fin 0,
      stored_energy = Fin 5\<rparr>"

definition scenario_control :: PlasmaControlSystem where
  "scenario_control =
     \<lparr>current_state = scenario_state, target_state = scenario_state,
      pf_coil_currents = replicate 10 (Fin 0),
      vertical_coil_currents = replicate 4 (Fin 0),
      horizontal_coil_currents = replicate 4 (Fin 0),
      heating_systems =
        [\<lparr>power_hs = Fin 10, frequency = Fin 0, enabled = True\<rparr>,
         \<lparr>power_hs = Fin 0, frequency = Fin 0, enabled = False\<rparr>,
         \<lparr>power_hs = Fin 0, frequency = Fin 0, enabled = False\<rparr>],
      fuel_injection_rate = Fin 0, impurity_injection_rate = Fin 0,
      controller_state = PSQ_STATE_FLAT_TOP, simulation_time = Fin 0,
      iteration_count = 0, state_history = replicate 1000 (replicate 10 (Fin 0)),
      disruption_detected = False, mitigation_activated = False,
      disruption_warning_time = Fin 0, energy_confinement_time_ctl = Fin 5,
      fusion_gain_Q = Fin 0, stored_energy_ctl = Fin 5\<rparr>"

text \<open>
  Variants of the scenario: the state with another plasma current, stored energy and
  vertical position, and the control structure with another simulation clock.
\<close>

definition scenario_variant :: "real \<Rightarrow> real \<Rightarrow> real \<Rightarrow> PlasmaState" where
  "scenario_variant Ip W z =
     scenario_state\<lparr>plasma_current := Fin Ip, stored_energy := Fin W,
                    vertical_position := Fin z\<rparr>"

definition scenario_at_clock :: "cfloat \<Rightarrow> PlasmaControlSystem" where
  "scenario_at_clock t = scenario_control\<lparr>simulation_time := t\<rparr>"

section \<open>Arithmetic of float values\<close>

lemma cfloat_minus_Fin [simp]: "Fin a - Fin b = Fin (a - b)"
  by (simp add: minus_cfloat_def)


lemma cfloat_add_zero [simp]: "x + Fin 0 = x"
  by (cases x) simp_all

lemmas device_defs =
  TOKAMAK_MAJOR_RADIUS_def TOKAMAK_MINOR_RADIUS_def TOKAMAK_TOROIDAL_FIELD_def
  SAFETY_FACTOR_Q95_MIN_def BETA_NORMAL_LIMIT_def VERTICAL_DISPLACEMENT_MAX_def
  M_PI_def MU0_def ELECTRON_CHARGE_def ELECTRON_MASS_def PROTON_MASS_def

section \<open>The fields that a step writes\<close>

lemma current_evolution_frame: "\<exists>x. current_evolution s c dt = s\<lparr>plasma_current := x\<rparr>"
  unfolding current_evolution_def Let_def by (intro exI, rule refl)

lemma energy_balance_frame: "\<exists>x. energy_balance s c dt = s\<lparr>stored_energy := x\<rparr>"
  unfolding energy_balance_def Let_def by (intro exI, rule refl)

lemma temperature_update_frame: "\<exists>x. temperature_update s v = s\<lparr>temperature_core := x\<rparr>"
  unfolding temperature_update_def by (intro exI, rule refl)

lemma density_evolution_frame: "\<exists>x. density_evolution s c dt v = s\<lparr>density_core := x\<rparr>"
  unfolding density_evolution_def Let_def by (intro exI, rule refl)

lemma position_evolution_frame: "\<exists>x. position_evolution s c dt v = s\<lparr>vertical_position := x\<rparr>"
  unfolding position_evolution_def Let_def by (intro exI, rule refl)

lemma stability_updates_frame:
  "\<exists>x y z. stability_updates s c u =
     s\<lparr>safety_factor_q95 := x, beta_normalized := y, mhd_activity_level := z\<rparr>"
  unfolding stability_updates_def Let_def by (intro exI, rule refl)

lemma disruption_conditions_frame: "\<exists>x. disruption_conditions s = s\<lparr>mhd_activity_level := x\<rparr>"
proof -
  have "disruption_conditions s =
          s\<lparr>mhd_activity_level := mhd_activity_level (disruption_conditions s)\<rparr>"
    by (simp add: disruption_conditions_def Let_def)
  then show ?thesis by blast
qed

lemma advance_plasma_state_updates:
  "\<exists>a b c d e f g h.
     fst (advance_plasma_state state control dt u) =
       state\<lparr>plasma_current := a, stored_energy := b, temperature_core := c,
             density_core := d, vertical_position := e, safety_factor_q95 := f,
             beta_normalized := g, mhd_activity_level := h\<rparr>"
proof -
  define s1 where "s1 = current_evolution state control dt"
  define s2 where "s2 = energy_balance s1 control dt"
  define v where "v = plasma_volume_of s2"
  define s3 where "s3 = temperature_update s2 v"
  define s4 where "s4 = density_evolution s3 control dt v"
  define s5 where "s5 = position_evolution s4 control dt v"
  define s6 where "s6 = stability_updates s5 control u"
  define s7 where "s7 = disruption_conditions s6"
  have r: "fst (advance_plasma_state state control dt u) = s7"
    by (simp add: advance_plasma_state_def Let_def s1_def s2_def v_def s3_def s4_def s5_def s6_def s7_def)
  obtain a where 1: "s1 = state\<lparr>plasma_current := a\<rparr>"
    unfolding s1_def using current_evolution_frame by blast
  obtain b where 2: "s2 = s1\<lparr>stored_energy := b\<rparr>"
    unfolding s2_def using energy_balance_frame by blast
  obtain c where 3: "s3 = s2\<lparr>temperature_core := c\<rparr>"
    unfolding s3_def using temperature_update_frame by blast
  obtain d where 4: "s4 = s3\<lparr>density_core := d\<rparr>"
    unfolding s4_def using density_evolution_frame by blast
  obtain e where 5: "s5 = s4\<lparr>vertical_position := e\<rparr>"
    unfolding s5_def using position_evolution_frame by blast
  obtain f g h0 where 6: "s6 = s5\<lparr>safety_factor_q95 := f, beta_normalized := g, mhd_activity_level := h0\<rparr>"
    unfolding s6_def using stability_updates_frame by blast
  obtain h where 7: "s7 = s6\<lparr>mhd_activity_level := h\<rparr>"
    unfolding s7_def using disruption_conditions_frame by blast
  have "s7 = state\<lparr>plasma_current := a, stored_energy := b, temperature_core := c,
             density_core := d, vertical_position := e, safety_factor_q95 := f,
             beta_normalized := g, mhd_activity_level := h\<rparr>"
    by (simp add: 1 2 3 4 5 6 7)
  with r show ?thesis by blast
qed

section \<open>The values that a step writes\<close>

lemma current_evolution_value:
  "plasma_current (current_evolution s c dt) =
     plasma_current s +
     (pf_coil_currents c ! 0 * Fin 0.1 - Fin (1 / 10 ^ 6) * plasma_current s * Fin (10 ^ 6)) /
       Fin (5 / 10 ^ 7) * dt / Fin (10 ^ 6)"
  by (simp add: current_evolution_def Let_def)

lemma energy_balance_value:
  "stored_energy (energy_balance s c dt) =
     stored_energy s +
     (heating_power_sum (heating_systems c) - stored_energy s / energy_confinement_time_ctl c) * dt"
  by (simp add: energy_balance_def Let_def)

lemma temperature_update_value:
  "temperature_core (temperature_update s v) =
     stored_energy s * Fin (10 ^ 6) /
       (Fin 1.5 * density_core s * Fin (10 ^ 19) * v * ELECTRON_CHARGE * Fin 1000)"
  by (simp add: temperature_update_def)

lemma density_evolution_value:
  "density_core (density_evolution s c dt v) =
     density_core s +
     (fuel_injection_rate c - density_core s * Fin (10 ^ 19) * v / Fin 10) / v * dt / Fin (10 ^ 19)"
  by (simp add: density_evolution_def Let_def)

lemma position_evolution_value:
  "vertical_position (position_evolution s c dt v) =
     vertical_position s +
     (vertical_position s * dt +
      Fin 0.5 *
        ((vertical_force_sum (vertical_coil_currents c) (plasma_current s) -
          Fin 0.1 * vertical_position s) /
         (density_core s * Fin (10 ^ 19) * v * (PROTON_MASS + ELECTRON_MASS))) *
        dt * dt)"
  by (simp add: position_evolution_def Let_def)

lemma safety_factor_profile_value:
  "safety_factor_profile r s =
     float_of
       (float_of
          ((Fin 2 * M_PI * TOKAMAK_TOROIDAL_FIELD * r * r *
              TOKAMAK_MINOR_RADIUS * TOKAMAK_MINOR_RADIUS) /
           (MU0 * TOKAMAK_MAJOR_RADIUS * float_of (plasma_current s * Fin (10 ^ 6)))) *
        float_of (Fin 1 + Fin 0.5 * r * r))"
  by (simp add: safety_factor_profile_def Let_def)

lemma stability_updates_values:
  "safety_factor_q95 (stability_updates s c u) = safety_factor_profile lit_0_95f s"
  "beta_normalized (stability_updates s c u) =
     calculate_beta_normalized (s\<lparr>safety_factor_q95 := safety_factor_profile lit_0_95f s\<rparr>)"
  "mhd_activity_level (stability_updates s c u) =
     lit_0_1f * sinf (float_of (simulation_time c * Fin 100)) + lit_0_05f * Fin u"
  by (simp_all add: stability_updates_def Let_def)

lemma calculate_beta_normalized_value:
  "calculate_beta_normalized s =
     Fin 2 * MU0 *
       ((density_core s * Fin (10 ^ 19) * temperature_core s * Fin (1.602 / 10 ^ 16)) / Fin 3) /
       (sqrtf (TOKAMAK_TOROIDAL_FIELD * TOKAMAK_TOROIDAL_FIELD +
               powf (MU0 * plasma_current s * Fin (10 ^ 6) /
                     (Fin 2 * M_PI * TOKAMAK_MINOR_RADIUS)) 2) *
        sqrtf (TOKAMAK_TOROIDAL_FIELD * TOKAMAK_TOROIDAL_FIELD +
               powf (MU0 * plasma_current s * Fin (10 ^ 6) /
                     (Fin 2 * M_PI * TOKAMAK_MINOR_RADIUS)) 2)) *
       Fin 100 * TOKAMAK_MINOR_RADIUS * TOKAMAK_TOROIDAL_FIELD / plasma_current s"
  by (simp add: calculate_beta_normalized_def calculate_beta_def Let_def)

lemma disruption_conditions_value:
  "mhd_activity_level (disruption_conditions s) =
     mhd_activity_level s +
     (if safety_factor_q95 s < SAFETY_FACTOR_Q95_MIN then Fin 0.5 else Fin 0) +
     (if beta_normalized s > BETA_NORMAL_LIMIT then lit_0_3f else Fin 0) +
     (if fabsf (vertical_position s) > VERTICAL_DISPLACEMENT_MAX then lit_0_7f else Fin 0)"
  by (simp add: disruption_conditions_def Let_def)

lemma calculate_beta_normalized_cong:
  "density_core s = density_core t \<Longrightarrow> temperature_core s = temperature_core t \<Longrightarrow>
   plasma_current s = plasma_current t \<Longrightarrow>
   calculate_beta_normalized s = calculate_beta_normalized t"
  by (simp add: calculate_beta_normalized_value)

lemma safety_factor_profile_cong:
  "plasma_current s = plasma_current t \<Longrightarrow> safety_factor_profile r s = safety_factor_profile r t"
  by (simp add: safety_factor_profile_value)

lemma advance_plasma_state_fields:
  fixes state control dt u
  defines "s' \<equiv> fst (advance_plasma_state state control dt u)"
  defines "V \<equiv> plasma_volume_of state"
  shows
    "plasma_current s' =
       plasma_current state +
       (pf_coil_currents control ! 0 * Fin 0.1 -
        Fin (1 / 10 ^ 6) * plasma_current state * Fin (10 ^ 6)) /
         Fin (5 / 10 ^ 7) * dt / Fin (10 ^ 6)"
    "stored_energy s' =
       stored_energy state +
       (heating_power_sum (heating_systems control) -
        stored_energy state / energy_confinement_time_ctl control) * dt"
    "temperature_core s' =
       stored_energy s' * Fin (10 ^ 6) /
         (Fin 1.5 * density_core state * Fin (10 ^ 19) * V * ELECTRON_CHARGE * Fin 1000)"
    "density_core s' =
       density_core state +
       (fuel_injection_rate control - density_core state * Fin (10 ^ 19) * V / Fin 10) / V *
         dt / Fin (10 ^ 19)"
    "vertical_position s' =
       vertical_position state +
       (vertical_position state * dt +
        Fin 0.5 *
          ((vertical_force_sum (vertical_coil_currents control) (plasma_current s') -
            Fin 0.1 * vertical_position state) /
           (density_core s' * Fin (10 ^ 19) * V * (PROTON_MASS + ELECTRON_MASS))) *
          dt * dt)"
    "safety_factor_q95 s' = safety_factor_profile lit_0_95f s'"
    "beta_normalized s' = calculate_beta_normalized s'"
    "mhd_activity_level s' =
       lit_0_1f * sinf (float_of (simulation_time control * Fin 100)) + lit_0_05f * Fin u +
       (if safety_factor_q95 s' < SAFETY_FACTOR_Q95_MIN then Fin 0.5 else Fin 0) +
       (if beta_normalized s' > BETA_NORMAL_LIMIT then lit_0_3f else Fin 0) +
       (if fabsf (vertical_position s') > VERTICAL_DISPLACEMENT_MAX then lit_0_7f else Fin 0)"
proof -
  define s1 where "s1 = current_evolution state control dt"
  define s2 where "s2 = energy_balance s1 control dt"
  define s3 where "s3 = temperature_update s2 (plasma_volume_of s2)"
  define s4 where "s4 = density_evolution s3 control dt (plasma_volume_of s2)"
  define s5 where "s5 = position_evolution s4 control dt (plasma_volume_of s2)"
  define s6 where "s6 = stability_updates s5 control u"
  define s7 where "s7 = disruption_conditions s6"
  have r: "s' = s7"
    by (simp add: s'_def advance_plasma_state_def Let_def s1_def s2_def s3_def s4_def s5_def
        s6_def s7_def)
  obtain a where 1: "s1 = state\<lparr>plasma_current := a\<rparr>"
    unfolding s1_def using current_evolution_frame by blast
  obtain b where 2: "s2 = s1\<lparr>stored_energy := b\<rparr>"
    unfolding s2_def using energy_balance_frame by blast
  obtain c where 3: "s3 = s2\<lparr>temperature_core := c\<rparr>"
    unfolding s3_def using temperature_update_frame by blast
  obtain d where 4: "s4 = s3\<lparr>density_core := d\<rparr>"
    unfolding s4_def using density_evolution_frame by blast
  obtain e where 5: "s5 = s4\<lparr>vertical_position := e\<rparr>"
    unfolding s5_def using position_evolution_frame by blast
  obtain f g h0 where 6:
    "s6 = s5\<lparr>safety_factor_q95 := f, beta_normalized := g, mhd_activity_level := h0\<rparr>"
    unfolding s6_def using stability_updates_frame by blast
  obtain h where 7: "s7 = s6\<lparr>mhd_activity_level := h\<rparr>"
    unfolding s7_def using disruption_conditions_frame by blast
  have vol: "plasma_volume_of s2 = V"
    by (simp add: V_def plasma_volume_of_def 1 2)
  have a: "a = plasma_current state +
       (pf_coil_currents control ! 0 * Fin 0.1 -
        Fin (1 / 10 ^ 6) * plasma_current state * Fin (10 ^ 6)) /
         Fin (5 / 10 ^ 7) * dt / Fin (10 ^ 6)"
  proof -
    from 1 have "plasma_current s1 = a" by simp
    then have "plasma_current (current_evolution state control dt) = a" unfolding s1_def .
    then show ?thesis by (simp add: current_evolution_value)
  qed
  have b: "b = stored_energy state +
       (heating_power_sum (heating_systems control) -
        stored_energy state / energy_confinement_time_ctl control) * dt"
  proof -
    from 2 have "stored_energy s2 = b" by simp
    then have "stored_energy (energy_balance s1 control dt) = b" unfolding s2_def .
    then show ?thesis by (simp add: energy_balance_value 1)
  qed
  have c: "c = b * Fin (10 ^ 6) /
         (Fin 1.5 * density_core state * Fin (10 ^ 19) * V * ELECTRON_CHARGE * Fin 1000)"
  proof -
    from 3 have "temperature_core s3 = c" by simp
    then have "temperature_core (temperature_update s2 V) = c" unfolding s3_def vol .
    then show ?thesis by (simp add: temperature_update_value 1 2)
  qed
  have d: "d = density_core state +
       (fuel_injection_rate control - density_core state * Fin (10 ^ 19) * V / Fin 10) / V *
         dt / Fin (10 ^ 19)"
  proof -
    from 4 have "density_core s4 = d" by simp
    then have "density_core (density_evolution s3 control dt V) = d" unfolding s4_def vol .
    then show ?thesis by (simp add: density_evolution_value 1 2 3)
  qed
  have e: "e = vertical_position state +
       (vertical_position state * dt +
        Fin 0.5 *
          ((vertical_force_sum (vertical_coil_currents control) a -
            Fin 0.1 * vertical_position state) /
           (d * Fin (10 ^ 19) * V * (PROTON_MASS + ELECTRON_MASS))) *
          dt * dt)"
  proof -
    from 5 have "vertical_position s5 = e" by simp
    then have "vertical_position (position_evolution s4 control dt V) = e" unfolding s5_def vol .
    then show ?thesis by (simp add: position_evolution_value 1 2 3 4)
  qed
  have f: "f = safety_factor_profile lit_0_95f s7"
  proof -
    from 6 have "safety_factor_q95 s6 = f" by simp
    then have "safety_factor_q95 (stability_updates s5 control u) = f" unfolding s6_def .
    then have "f = safety_factor_profile lit_0_95f s5" by (simp add: stability_updates_values)
    also have "\<dots> = safety_factor_profile lit_0_95f s7"
      by (rule safety_factor_profile_cong) (simp add: 6 7)
    finally show ?thesis .
  qed
  have g: "g = calculate_beta_normalized s7"
  proof -
    from 6 have "beta_normalized s6 = g" by simp
    then have "beta_normalized (stability_updates s5 control u) = g" unfolding s6_def .
    then have "g = calculate_beta_normalized
                     (s5\<lparr>safety_factor_q95 := safety_factor_profile lit_0_95f s5\<rparr>)"
      by (simp add: stability_updates_values)
    also have "\<dots> = calculate_beta_normalized s7"
      by (rule calculate_beta_normalized_cong) (simp_all add: 6 7)
    finally show ?thesis .
  qed
  have h0: "h0 = lit_0_1f * sinf (float_of (simulation_time control * Fin 100)) + lit_0_05f * Fin u"
  proof -
    from 6 have "mhd_activity_level s6 = h0" by simp
    then have "mhd_activity_level (stability_updates s5 control u) = h0" unfolding s6_def .
    then show ?thesis by (simp add: stability_updates_values)
  qed
  have h: "h = h0 +
       (if f < SAFETY_FACTOR_Q95_MIN then Fin 0.5 else Fin 0) +
       (if g > BETA_NORMAL_LIMIT then lit_0_3f else Fin 0) +
       (if fabsf e > VERTICAL_DISPLACEMENT_MAX then lit_0_7f else Fin 0)"
  proof -
    from 7 have "mhd_activity_level s7 = h" by simp
    then have "mhd_activity_level (disruption_conditions s6) = h" unfolding s7_def .
    then show ?thesis by (simp add: disruption_conditions_value 6 5)
  qed
  have fin: "s7 = state\<lparr>plasma_current := a, stored_energy := b, temperature_core := c,
             density_core := d, vertical_position := e, safety_factor_q95 := f,
             beta_normalized := g, mhd_activity_level := h\<rparr>"
    by (simp add: 1 2 3 4 5 6 7)
  show "plasma_current s' =
       plasma_current state +
       (pf_coil_currents control ! 0 * Fin 0.1 -
        Fin (1 / 10 ^ 6) * plasma_current state * Fin (10 ^ 6)) /
         Fin (5 / 10 ^ 7) * dt / Fin (10 ^ 6)"
    unfolding r using a by (simp add: fin)
  show "stored_energy s' =
       stored_energy state +
       (heating_power_sum (heating_systems control) -
        stored_energy state / energy_confinement_time_ctl control) * dt"
    unfolding r using b by (simp add: fin)
  show "temperature_core s' =
       stored_energy s' * Fin (10 ^ 6) /
         (Fin 1.5 * density_core state * Fin (10 ^ 19) * V * ELECTRON_CHARGE * Fin 1000)"
    unfolding r using c by (simp add: fin)
  show "density_core s' =
       density_core state +
       (fuel_injection_rate control - density_core state * Fin (10 ^ 19) * V / Fin 10) / V *
         dt / Fin (10 ^ 19)"
    unfolding r using d by (simp add: fin)
  show "vertical_position s' =
       vertical_position state +
       (vertical_position state * dt +
        Fin 0.5 *
          ((vertical_force_sum (vertical_coil_currents control) (plasma_current s') -
            Fin 0.1 * vertical_position state) /
           (density_core s' * Fin (10 ^ 19) * V * (PROTON_MASS + ELECTRON_MASS))) *
          dt * dt)"
    unfolding r using e by (simp add: fin)
  show "safety_factor_q95 s' = safety_factor_profile lit_0_95f s'"
    unfolding r using f by (simp add: fin)
  show "beta_normalized s' = calculate_beta_normalized s'"
    unfolding r using g by (simp add: fin)
  show "mhd_activity_level s' =
       lit_0_1f * sinf (float_of (simulation_time control * Fin 100)) + lit_0_05f * Fin u +
       (if safety_factor_q95 s' < SAFETY_FACTOR_Q95_MIN then Fin 0.5 else Fin 0) +
       (if beta_normalized s' > BETA_NORMAL_LIMIT then lit_0_3f else Fin 0) +
       (if fabsf (vertical_position s') > VERTICAL_DISPLACEMENT_MAX then lit_0_7f else Fin 0)"
    unfolding r using h h0 by (simp add: fin)
qed

section \<open>The loops\<close>

lemma upt_3: "[0..<3] = [0, 1, 2]" by (simp add: upt_rec)
lemma upt_4: "[0..<4] = [0, 1, 2, 3]" by (simp add: upt_rec)

lemma heating_power_sum_unfold:
  "heating_power_sum hs =
     (let P0 = Fin 0;
          P1 = (if enabled (hs ! 0) then P0 + power_hs (hs ! 0) else P0);
          P2 = (if enabled (hs ! 1) then P1 + power_hs (hs ! 1) else P1)
      in if enabled (hs ! 2) then P2 + power_hs (hs ! 2) else P2)"
  by (simp add: heating_power_sum_def NUM_HEATING_SYSTEMS_def upt_3 Let_def)

lemma cfloat_zero_add [simp]: "Fin 0 + x = x"
  by (cases x) simp_all

lemma heating_power_sum_single:
  assumes "k < NUM_HEATING_SYSTEMS" and "enabled (hs ! k)"
    and "\<forall>j < NUM_HEATING_SYSTEMS. j \<noteq> k \<longrightarrow> \<not> enabled (hs ! j)"
  shows "heating_power_sum hs = power_hs (hs ! k)"
proof -
  from assms(1) have "k = 0 \<or> k = 1 \<or> k = 2"
    by (auto simp add: NUM_HEATING_SYSTEMS_def)
  with assms(2,3) show ?thesis
    by (auto simp add: heating_power_sum_unfold NUM_HEATING_SYSTEMS_def Let_def)
qed

lemma vertical_force_sum_unfold:
  "vertical_force_sum coils Ip =
     coils ! 0 * Ip * Fin 0.1 + coils ! 1 * Ip * Fin 0.1 +
     coils ! 2 * Ip * Fin 0.1 + coils ! 3 * Ip * Fin 0.1"
  by (simp add: vertical_force_sum_def NUM_VERTICAL_COILS_def upt_4)

lemma wf_scenario_control: "wf_control scenario_control"
  by (simp add: wf_control_def scenario_control_def NUM_PF_COILS_def NUM_VERTICAL_COILS_def
      NUM_HORIZONTAL_COILS_def NUM_HEATING_SYSTEMS_def)

section \<open>The end-to-end scenario\<close>

text \<open>
  Claim C2. Take a plasma current of 15 and a stored energy of 5, a first poloidal-field
  coil current of 0, exactly one enabled heating system, with power 10, and a tracked
  confinement time of at least one second (an infinite one included). One step with
  \<open>dt = 0.001\<close> then leaves a finite plasma current that differs from 15 by less than one
  percent of 15, and a finite stored energy above 5. The other fields of the scenario
  (density, temperature, elongation, vertical position, the other coil currents) do not
  enter these two results, so the statement leaves them open; the instance after it is
  the scenario itself.
\<close>

theorem end_to_end_scenario:
  assumes "plasma_current state = Fin 15" and "stored_energy state = Fin 5"
    and "pf_coil_currents control ! 0 = Fin 0"
    and "k < NUM_HEATING_SYSTEMS"
    and "enabled (heating_systems control ! k)"
    and "power_hs (heating_systems control ! k) = Fin 10"
    and "\<forall>j < NUM_HEATING_SYSTEMS. j \<noteq> k \<longrightarrow> \<not> enabled (heating_systems control ! j)"
    and "Fin 1 \<le> energy_confinement_time_ctl control"
  shows "\<exists>I' W'.
           plasma_current (fst (advance_plasma_state state control (Fin 0.001) rand_ratio)) = Fin I' \<and>
           \<bar>I' - 15\<bar> < 0.01 * 15 \<and>
           stored_energy (fst (advance_plasma_state state control (Fin 0.001) rand_ratio)) = Fin W' \<and>
           5 < W'"
proof -
  have P: "heating_power_sum (heating_systems control) = Fin 10"
    using heating_power_sum_single [OF assms(4,5,7)] assms(6) by simp
  have I: "plasma_current (fst (advance_plasma_state state control (Fin 0.001) rand_ratio)) =
             Fin 14.97"
    by (simp add: advance_plasma_state_fields(1) assms(1,3))
  have "\<exists>W'. stored_energy (fst (advance_plasma_state state control (Fin 0.001) rand_ratio)) = Fin W' \<and>
              5 < W'"
  proof (cases "energy_confinement_time_ctl control")
    case (Fin t)
    with assms(8) have t: "1 \<le> t" by simp
    then have "5 / t \<le> 5" by (simp add: field_simps)
    then have "5 < 5 + (10 - 5 / t) * 0.001" by simp
    with t show ?thesis
      by (simp add: advance_plasma_state_fields(2) assms(2) P Fin)
  next
    case PInf
    then have "stored_energy (fst (advance_plasma_state state control (Fin 0.001) rand_ratio)) =
                 Fin 5.01"
      by (simp add: advance_plasma_state_fields(2) assms(2) P)
    moreover have "(5::real) < 5.01" by simp
    ultimately show ?thesis by blast
  next
    case NInf
    with assms(8) show ?thesis by simp
  next
    case NaN
    with assms(8) show ?thesis by simp
  qed
  moreover have "\<bar>14.97 - 15\<bar> < 0.01 * (15::real)" by simp
  ultimately show ?thesis using I by blast
qed

theorem end_to_end_scenario_witness:
  "plasma_current scenario_state = Fin 15 \<and> stored_energy scenario_state = Fin 5 \<and>
   density_core scenario_state = Fin 1 \<and> temperature_core scenario_state = Fin 15 \<and>
   elongation scenario_state = Fin 1.7 \<and> vertical_position scenario_state = Fin 0 \<and>
   wf_control scenario_control \<and>
   pf_coil_currents scenario_control ! 0 = Fin 0 \<and>
   (0::nat) < NUM_HEATING_SYSTEMS \<and>
   enabled (heating_systems scenario_control ! 0) \<and>
   power_hs (heating_systems scenario_control ! 0) = Fin 10 \<and>
   \<not> enabled (heating_systems scenario_control ! 1) \<and>
   \<not> enabled (heating_systems scenario_control ! 2) \<and>
   Fin 1 \<le> energy_confinement_time_ctl scenario_control \<and>
   (\<exists>I' W'.
      plasma_current (fst (advance_plasma_state scenario_state scenario_control (Fin 0.001) 0.5)) =
        Fin I' \<and>
      \<bar>I' - 15\<bar> < 0.01 * 15 \<and>
      stored_energy (fst (advance_plasma_state scenario_state scenario_control (Fin 0.001) 0.5)) =
        Fin W' \<and>
      5 < W')"
proof -
  have others: "\<forall>j < NUM_HEATING_SYSTEMS. j \<noteq> 0 \<longrightarrow> \<not> enabled (heating_systems scenario_control ! j)"
  proof (intro allI impI)
    fix j assume "j < NUM_HEATING_SYSTEMS" and "j \<noteq> 0"
    then have "j = 1 \<or> j = 2" by (auto simp add: NUM_HEATING_SYSTEMS_def)
    then show "\<not> enabled (heating_systems scenario_control ! j)"
      by (auto simp add: scenario_control_def)
  qed
  have hyps:
    "plasma_current scenario_state = Fin 15" "stored_energy scenario_state = Fin 5"
    "pf_coil_currents scenario_control ! 0 = Fin 0"
    "(0::nat) < NUM_HEATING_SYSTEMS"
    "enabled (heating_systems scenario_control ! 0)"
    "power_hs (heating_systems scenario_control ! 0) = Fin 10"
    "Fin 1 \<le> energy_confinement_time_ctl scenario_control"
    by (simp_all add: scenario_state_def scenario_control_def NUM_HEATING_SYSTEMS_def)
  have more:
    "density_core scenario_state = Fin 1" "temperature_core scenario_state = Fin 15"
    "elongation scenario_state = Fin 1.7" "vertical_position scenario_state = Fin 0"
    "\<not> enabled (heating_systems scenario_control ! 1)"
    "\<not> enabled (heating_systems scenario_control ! 2)"
    by (simp_all add: scenario_state_def scenario_control_def)
  note end_to_end_scenario [where k = 0 and rand_ratio = "0.5",
      OF hyps(1) hyps(2) hyps(3) hyps(4) hyps(5) hyps(6) others hyps(7)]
  with hyps more wf_scenario_control show ?thesis by blast
qed

section \<open>The vertical position\<close>



section \<open>The confinement time scaling\<close>



section \<open>The equilibrium flux estimate\<close>

lemma sqrtf_div_less_one:
  assumes "sqrtf A / Fin 0.6 < Fin 1"
  obtains x where "sqrtf A / Fin 0.6 = Fin x" and "0 \<le> x" and "x < 1"
proof (cases A)
  case (Fin a)
  show ?thesis
  proof (cases "a < 0")
    case True
    with Fin assms show ?thesis by simp
  next
    case False
    with Fin assms that [of "sqrt a / 0.6"] show ?thesis by simp
  qed
qed (use assms in simp_all)

lemma square_less_one:
  fixes x :: real
  assumes "0 \<le> x" and "x < 1"
  shows "0 < 1 - x * x"
proof -
  from assms have "x * x \<le> x * 1" by (intro mult_left_mono) simp_all
  with assms(2) show ?thesis by simp
qed

lemma cfloat_less_le: "x < y \<Longrightarrow> \<not> y \<le> (x::cfloat)"
  by (cases x; cases y) simp_all

lemma normalized_radius_less_one:
  assumes "normalized_radius R Z < Fin 1"
  obtains x where "normalized_radius R Z = Fin x" and "0 \<le> x" and "x < 1"
  using assms unfolding normalized_radius_def Let_def TOKAMAK_MINOR_RADIUS_def
  by (rule sqrtf_div_less_one)

lemma normalized_radius_Fin:
  "normalized_radius (Fin x) (Fin y) = Fin (sqrt ((x - 1.8)\<^sup>2 + y\<^sup>2) / 0.6)"
proof -
  have "0 \<le> (x - 1.8) * (x - 1.8) + y * y" by simp
  then show ?thesis
    by (simp add: normalized_radius_def Let_def device_defs power2_eq_square not_less)
qed

lemma sqrt_9_25: "sqrt (9 / 25) = (3 / 5 :: real)"
  by (rule real_sqrt_unique) (simp_all add: power2_eq_square)

lemma sqrt_9_100: "sqrt (9 / 100) = (3 / 10 :: real)"
  by (rule real_sqrt_unique) (simp_all add: power2_eq_square)

lemma normalized_radius_examples:
  "normalized_radius (Fin 1.8) (Fin 0) = Fin 0"
  "normalized_radius (Fin 1.8) (Fin 0.3) = Fin 0.5"
  "normalized_radius (Fin 1.8) (Fin 0.6) = Fin 1"
  by (simp_all add: normalized_radius_Fin sqrt_9_25 sqrt_9_100 power2_eq_square)

text \<open>
  Claim C5. The normalized radius of a point with finite coordinates \<open>(x, y)\<close> is
  \<^verbatim>\<open>sqrt((x - 1.8)^2 + y^2) / 0.6\<close>. For a positive shape parameter \<open>p0\<close> (the entry
  0 of \<open>params\<close>) and a point whose normalized radius \<open>r\<close> is below 1, the function
  returns \<open>p0 * (1 - r * r)\<close>, which is not negative; between two such points the one
  with the larger radius has the smaller or equal value. For a point whose normalized
  radius is 1 or more, the boundary \<open>r = 1\<close> included, the function returns zero,
  whatever \<open>params\<close> is.
\<close>

theorem grad_shafranov_solution_profile:
  "(normalized_radius (Fin x) (Fin y) = Fin (sqrt ((x - 1.8)\<^sup>2 + y\<^sup>2) / 0.6)) \<and>
   (Fin 0 < p0 \<longrightarrow> normalized_radius R Z < Fin 1 \<longrightarrow>
      grad_shafranov_solution R Z (p0 # ps) =
        Some (p0 * (Fin 1 - normalized_radius R Z * normalized_radius R Z)) \<and>
      Fin 0 \<le> p0 * (Fin 1 - normalized_radius R Z * normalized_radius R Z)) \<and>
   (Fin 0 < p0 \<longrightarrow> normalized_radius R Z \<le> normalized_radius R2 Z2 \<longrightarrow>
    normalized_radius R2 Z2 < Fin 1 \<longrightarrow>
      p0 * (Fin 1 - normalized_radius R2 Z2 * normalized_radius R2 Z2) \<le>
      p0 * (Fin 1 - normalized_radius R Z * normalized_radius R Z)) \<and>
   (Fin 1 \<le> normalized_radius R Z \<longrightarrow> grad_shafranov_solution R Z params = Some (Fin 0))"
proof (intro conjI impI)
  show "normalized_radius (Fin x) (Fin y) = Fin (sqrt ((x - 1.8)\<^sup>2 + y\<^sup>2) / 0.6)"
    by (rule normalized_radius_Fin)
next
  assume p: "Fin 0 < p0" and r: "normalized_radius R Z < Fin 1"
  from r obtain x where x: "normalized_radius R Z = Fin x" "0 \<le> x" "x < 1"
    by (rule normalized_radius_less_one)
  from r have "\<not> Fin 1 \<le> normalized_radius R Z" by (rule cfloat_less_le)
  then show "grad_shafranov_solution R Z (p0 # ps) =
        Some (p0 * (Fin 1 - normalized_radius R Z * normalized_radius R Z))"
    by (simp add: grad_shafranov_solution_def Let_def)
  from x(2,3) have "0 < 1 - x * x"
    by (rule square_less_one)
  with p x show "Fin 0 \<le> p0 * (Fin 1 - normalized_radius R Z * normalized_radius R Z)"
    by (cases p0) simp_all
next
  assume p: "Fin 0 < p0" and le: "normalized_radius R Z \<le> normalized_radius R2 Z2"
    and r2: "normalized_radius R2 Z2 < Fin 1"
  from r2 obtain y where y: "normalized_radius R2 Z2 = Fin y" "0 \<le> y" "y < 1"
    by (rule normalized_radius_less_one)
  from le y have "normalized_radius R Z < Fin 1" by (cases "normalized_radius R Z") simp_all
  then obtain x where x: "normalized_radius R Z = Fin x" "0 \<le> x" "x < 1"
    by (rule normalized_radius_less_one)
  from le x y have "x \<le> y" by simp
  with x have xy: "x * x \<le> y * y" by (simp add: mult_mono)
  from x(2,3) have px: "0 < 1 - x * x" by (rule square_less_one)
  from y(2,3) have py: "0 < 1 - y * y" by (rule square_less_one)
  from p xy px py show "p0 * (Fin 1 - normalized_radius R2 Z2 * normalized_radius R2 Z2) \<le>
      p0 * (Fin 1 - normalized_radius R Z * normalized_radius R Z)"
    by (cases p0) (simp_all add: x y)
next
  assume "Fin 1 \<le> normalized_radius R Z"
  then show "grad_shafranov_solution R Z params = Some (Fin 0)"
    by (simp add: grad_shafranov_solution_def Let_def)
qed

theorem grad_shafranov_solution_profile_witness:
  "Fin 0 < Fin 2 \<and>
   normalized_radius (Fin 1.8) (Fin 0) < Fin 1 \<and>
   normalized_radius (Fin 1.8) (Fin 0) \<le> normalized_radius (Fin 1.8) (Fin 0.3) \<and>
   normalized_radius (Fin 1.8) (Fin 0.3) < Fin 1 \<and>
   Fin 1 \<le> normalized_radius (Fin 1.8) (Fin 0.6) \<and>
   grad_shafranov_solution (Fin 1.8) (Fin 0) [Fin 2] = Some (Fin 2) \<and>
   grad_shafranov_solution (Fin 1.8) (Fin 0.3) [Fin 2] = Some (Fin 1.5) \<and>
   Fin 0 \<le> Fin 1.5 \<and> Fin 1.5 \<le> Fin 2 \<and>
   grad_shafranov_solution (Fin 1.8) (Fin 0.6) [Fin 2] = Some (Fin 0)"
proof -
  have p: "Fin 0 < Fin 2" by simp
  have a: "normalized_radius (Fin 1.8) (Fin 0) < Fin 1"
    and b: "normalized_radius (Fin 1.8) (Fin 0) \<le> normalized_radius (Fin 1.8) (Fin 0.3)"
    and c: "normalized_radius (Fin 1.8) (Fin 0.3) < Fin 1"
    and d: "Fin 1 \<le> normalized_radius (Fin 1.8) (Fin 0.6)"
    unfolding normalized_radius_examples by simp_all
  note inside = grad_shafranov_solution_profile [where ?p0.0 = "Fin 2" and ps = "[]",
      THEN conjunct2, THEN conjunct1, rule_format, OF p]
  note mono = grad_shafranov_solution_profile [where ?p0.0 = "Fin 2",
      THEN conjunct2, THEN conjunct2, THEN conjunct1, rule_format, OF p b c]
  note outside = grad_shafranov_solution_profile [where params = "[Fin 2]",
      THEN conjunct2, THEN conjunct2, THEN conjunct2, rule_format, OF d]
  from inside [OF a] inside [OF c] mono outside p a b c d show ?thesis
    unfolding normalized_radius_examples by simp
qed

section \<open>The ECRH heating model\<close>

lemma powf_two [simp]: "powf (Fin a) 2 = Fin (a * a)"
proof -
  consider "0 < a" | "a = 0" | "a < 0" by linarith
  then show ?thesis
  proof cases
    case 1
    then show ?thesis by (simp add: powf.simps power2_eq_square)
  next
    case 2
    then show ?thesis by (simp add: powf.simps)
  next
    case 3
    then show ?thesis by (simp add: powf.simps is_integer_def power2_eq_square)
  qed
qed




lemma foldl_list_update_length:
  "length (foldl (\<lambda>p i. p[i := g i]) buf js) = length buf"
  by (induction js arbitrary: buf) simp_all

lemma foldl_list_update_nth:
  "j < length buf \<Longrightarrow>
   foldl (\<lambda>p i. p[i := g i]) buf js ! j = (if j \<in> set js then g j else buf ! j)"
  by (induction js arbitrary: buf) (auto simp add: nth_list_update)

lemma ecrh_profile_loop_length: "length (ecrh_profile_loop buf) = length buf"
  by (simp add: ecrh_profile_loop_def Let_def foldl_list_update_length)

lemma ecrh_profile_loop_nth:
  "j < length buf \<Longrightarrow>
   ecrh_profile_loop buf ! j =
     (if j < 10 then Fin (exp (- (real j / 10 - 0.5)\<^sup>2 / 0.1)) else buf ! j)"
  by (simp add: ecrh_profile_loop_def Let_def foldl_list_update_nth power2_eq_square)



text \<open>
  Claim C8. With a buffer of at least 10 entries, a call of \<open>ecrh_heating_model\<close>
  returns the buffer with the entries 0 to 9 overwritten and the others, and the
  length, as they were; the entry \<open>i\<close> is \<^verbatim>\<open>exp(-(i/10 - 0.5)^2 / 0.1)\<close> for every
  \<open>i\<close> from 0 to 9. The returned buffer does not depend on the power, the frequency or
  the plasma state.
\<close>

theorem ecrh_deposition_profile:
  "(10 \<le> length deposition_profile \<longrightarrow>
      (\<exists>delta_T prof.
         ecrh_heating_model pwr freq state deposition_profile = Some (delta_T, prof) \<and>
         length prof = length deposition_profile \<and>
         (\<forall>i < 10. prof ! i = Fin (exp (- (real i / 10 - 0.5)\<^sup>2 / 0.1))) \<and>
         (\<forall>i. 10 \<le> i \<and> i < length deposition_profile \<longrightarrow> prof ! i = deposition_profile ! i))) \<and>
   map_option snd (ecrh_heating_model pwr freq state deposition_profile) =
     map_option snd (ecrh_heating_model pwr' freq' state' deposition_profile)"
  by (simp add: ecrh_heating_model_def Let_def ecrh_profile_loop_length ecrh_profile_loop_nth)

theorem ecrh_deposition_profile_witness:
  "10 \<le> length (replicate 12 (Fin 7)) \<and>
   (\<exists>delta_T prof.
      ecrh_heating_model (Fin 10) (Fin 0) scenario_state (replicate 12 (Fin 7)) = Some (delta_T, prof) \<and>
      length prof = length (replicate 12 (Fin 7)) \<and>
      (\<forall>i < 10. prof ! i = Fin (exp (- (real i / 10 - 0.5)\<^sup>2 / 0.1))) \<and>
      (\<forall>i. 10 \<le> i \<and> i < length (replicate 12 (Fin 7)) \<longrightarrow> prof ! i = replicate 12 (Fin 7) ! i))"
proof -
  have len: "10 \<le> length (replicate 12 (Fin 7))" by simp
  note ecrh_deposition_profile [where deposition_profile = "replicate 12 (Fin 7)"
      and pwr = "Fin 10" and freq = "Fin 0" and state = scenario_state,
      THEN conjunct1, rule_format, OF len]
  with len show ?thesis by blast
qed

section \<open>The safety factor profile\<close>





section \<open>The frame of a step\<close>

text \<open>
  Claim C9, amended. A call writes, through \<^verbatim>\<open>state\<close>, the eight fields
  \<open>plasma_current\<close>, \<open>stored_energy\<close>, \<open>temperature_core\<close>, \<open>density_core\<close>,
  \<open>vertical_position\<close>, \<open>safety_factor_q95\<close>, \<open>beta_normalized\<close> and
  \<open>mhd_activity_level\<close> of the designated plasma state, and nothing else. When \<^verbatim>\<open>state\<close>
  designates an object outside the control structure, the other eleven fields of that
  object and the whole control structure are as before the call. When \<^verbatim>\<open>state\<close>
  designates the member \<^verbatim>\<open>current_state\<close> (or \<^verbatim>\<open>target_state\<close>) of the control
  structure itself, the control structure after the call is the one before with these
  eight fields of that member rewritten, and every other member as before.
\<close>

theorem advance_plasma_state_call_frame:
  "(\<exists>a b c d e f g h.
      advance_plasma_state_call (Separate_object state) control dt rand_ratio =
        (state\<lparr>plasma_current := a, stored_energy := b, temperature_core := c,
               density_core := d, vertical_position := e, safety_factor_q95 := f,
               beta_normalized := g, mhd_activity_level := h\<rparr>,
         control)) \<and>
   (\<exists>a b c d e f g h.
      advance_plasma_state_call Current_state_member control dt rand_ratio =
        ((current_state control)
           \<lparr>plasma_current := a, stored_energy := b, temperature_core := c,
            density_core := d, vertical_position := e, safety_factor_q95 := f,
            beta_normalized := g, mhd_activity_level := h\<rparr>,
         control\<lparr>current_state :=
           (current_state control)
             \<lparr>plasma_current := a, stored_energy := b, temperature_core := c,
              density_core := d, vertical_position := e, safety_factor_q95 := f,
              beta_normalized := g, mhd_activity_level := h\<rparr>\<rparr>)) \<and>
   (\<exists>a b c d e f g h.
      advance_plasma_state_call Target_state_member control dt rand_ratio =
        ((target_state control)
           \<lparr>plasma_current := a, stored_energy := b, temperature_core := c,
            density_core := d, vertical_position := e, safety_factor_q95 := f,
            beta_normalized := g, mhd_activity_level := h\<rparr>,
         control\<lparr>target_state :=
           (target_state control)
             \<lparr>plasma_current := a, stored_energy := b, temperature_core := c,
              density_core := d, vertical_position := e, safety_factor_q95 := f,
              beta_normalized := g, mhd_activity_level := h\<rparr>\<rparr>)) \<and>
   li_inductance (fst (advance_plasma_state_call (Separate_object state) control dt rand_ratio)) =
     li_inductance state \<and>
   radial_position (fst (advance_plasma_state_call (Separate_object state) control dt rand_ratio)) =
     radial_position state \<and>
   elongation (fst (advance_plasma_state_call (Separate_object state) control dt rand_ratio)) =
     elongation state \<and>
   triangularity (fst (advance_plasma_state_call (Separate_object state) control dt rand_ratio)) =
     triangularity state \<and>
   temperature_edge (fst (advance_plasma_state_call (Separate_object state) control dt rand_ratio)) =
     temperature_edge state \<and>
   density_edge (fst (advance_plasma_state_call (Separate_object state) control dt rand_ratio)) =
     density_edge state \<and>
   ntm_amplitude (fst (advance_plasma_state_call (Separate_object state) control dt rand_ratio)) =
     ntm_amplitude state \<and>
   elm_frequency (fst (advance_plasma_state_call (Separate_object state) control dt rand_ratio)) =
     elm_frequency state \<and>
   neutron_rate (fst (advance_plasma_state_call (Separate_object state) control dt rand_ratio)) =
     neutron_rate state \<and>
   impurity_concentration
     (fst (advance_plasma_state_call (Separate_object state) control dt rand_ratio)) =
     impurity_concentration state \<and>
   radiation_power (fst (advance_plasma_state_call (Separate_object state) control dt rand_ratio)) =
     radiation_power state"
proof -
  have sep: "\<exists>a b c d e f g h.
      advance_plasma_state_call (Separate_object s) control dt rand_ratio =
        (s\<lparr>plasma_current := a, stored_energy := b, temperature_core := c,
               density_core := d, vertical_position := e, safety_factor_q95 := f,
               beta_normalized := g, mhd_activity_level := h\<rparr>,
         control)" for s
  proof -
    obtain a b c d e f g h where
      "fst (advance_plasma_state s control dt rand_ratio) =
         s\<lparr>plasma_current := a, stored_energy := b, temperature_core := c,
           density_core := d, vertical_position := e, safety_factor_q95 := f,
           beta_normalized := g, mhd_activity_level := h\<rparr>"
      using advance_plasma_state_updates by blast
    then have "advance_plasma_state_call (Separate_object s) control dt rand_ratio =
        (s\<lparr>plasma_current := a, stored_energy := b, temperature_core := c,
               density_core := d, vertical_position := e, safety_factor_q95 := f,
               beta_normalized := g, mhd_activity_level := h\<rparr>,
         control)"
      by (simp add: advance_plasma_state_call_def)
    then show ?thesis by blast
  qed
  have cur: "\<exists>a b c d e f g h.
      advance_plasma_state_call Current_state_member control dt rand_ratio =
        ((current_state control)
           \<lparr>plasma_current := a, stored_energy := b, temperature_core := c,
            density_core := d, vertical_position := e, safety_factor_q95 := f,
            beta_normalized := g, mhd_activity_level := h\<rparr>,
         control\<lparr>current_state :=
           (current_state control)
             \<lparr>plasma_current := a, stored_energy := b, temperature_core := c,
              density_core := d, vertical_position := e, safety_factor_q95 := f,
              beta_normalized := g, mhd_activity_level := h\<rparr>\<rparr>)"
  proof -
    obtain a b c d e f g h where
      "fst (advance_plasma_state (current_state control) control dt rand_ratio) =
         (current_state control)
           \<lparr>plasma_current := a, stored_energy := b, temperature_core := c,
            density_core := d, vertical_position := e, safety_factor_q95 := f,
            beta_normalized := g, mhd_activity_level := h\<rparr>"
      using advance_plasma_state_updates by blast
    then have "advance_plasma_state_call Current_state_member control dt rand_ratio =
        ((current_state control)
           \<lparr>plasma_current := a, stored_energy := b, temperature_core := c,
            density_core := d, vertical_position := e, safety_factor_q95 := f,
            beta_normalized := g, mhd_activity_level := h\<rparr>,
         control\<lparr>current_state :=
           (current_state control)
             \<lparr>plasma_current := a, stored_energy := b, temperature_core := c,
              density_core := d, vertical_position := e, safety_factor_q95 := f,
              beta_normalized := g, mhd_activity_level := h\<rparr>\<rparr>)"
      by (simp add: advance_plasma_state_call_def Let_def)
    then show ?thesis by blast
  qed
  have tgt: "\<exists>a b c d e f g h.
      advance_plasma_state_call Target_state_member control dt rand_ratio =
        ((target_state control)
           \<lparr>plasma_current := a, stored_energy := b, temperature_core := c,
            density_core := d, vertical_position := e, safety_factor_q95 := f,
            beta_normalized := g, mhd_activity_level := h\<rparr>,
         control\<lparr>target_state :=
           (target_state control)
             \<lparr>plasma_current := a, stored_energy := b, temperature_core := c,
              density_core := d, vertical_position := e, safety_factor_q95 := f,
              beta_normalized := g, mhd_activity_level := h\<rparr>\<rparr>)"
  proof -
    obtain a b c d e f g h where
      "fst (advance_plasma_state (target_state control) control dt rand_ratio) =
         (target_state control)
           \<lparr>plasma_current := a, stored_energy := b, temperature_core := c,
            density_core := d, vertical_position := e, safety_factor_q95 := f,
            beta_normalized := g, mhd_activity_level := h\<rparr>"
      using advance_plasma_state_updates by blast
    then have "advance_plasma_state_call Target_state_member control dt rand_ratio =
        ((target_state control)
           \<lparr>plasma_current := a, stored_energy := b, temperature_core := c,
            density_core := d, vertical_position := e, safety_factor_q95 := f,
            beta_normalized := g, mhd_activity_level := h\<rparr>,
         control\<lparr>target_state :=
           (target_state control)
             \<lparr>plasma_current := a, stored_energy := b, temperature_core := c,
              density_core := d, vertical_position := e, safety_factor_q95 := f,
              beta_normalized := g, mhd_activity_level := h\<rparr>\<rparr>)"
      by (simp add: advance_plasma_state_call_def Let_def)
    then show ?thesis by blast
  qed
  obtain a b c d e f g h where
    eq: "advance_plasma_state_call (Separate_object state) control dt rand_ratio =
        (state\<lparr>plasma_current := a, stored_energy := b, temperature_core := c,
               density_core := d, vertical_position := e, safety_factor_q95 := f,
               beta_normalized := g, mhd_activity_level := h\<rparr>,
         control)"
    using sep by blast
  have fields:
    "li_inductance (fst (advance_plasma_state_call (Separate_object state) control dt rand_ratio)) =
       li_inductance state"
    "radial_position (fst (advance_plasma_state_call (Separate_object state) control dt rand_ratio)) =
       radial_position state"
    "elongation (fst (advance_plasma_state_call (Separate_object state) control dt rand_ratio)) =
       elongation state"
    "triangularity (fst (advance_plasma_state_call (Separate_object state) control dt rand_ratio)) =
       triangularity state"
    "temperature_edge (fst (advance_plasma_state_call (Separate_object state) control dt rand_ratio)) =
       temperature_edge state"
    "density_edge (fst (advance_plasma_state_call (Separate_object state) control dt rand_ratio)) =
       density_edge state"
    "ntm_amplitude (fst (advance_plasma_state_call (Separate_object state) control dt rand_ratio)) =
       ntm_amplitude state"
    "elm_frequency (fst (advance_plasma_state_call (Separate_object state) control dt rand_ratio)) =
       elm_frequency state"
    "neutron_rate (fst (advance_plasma_state_call (Separate_object state) control dt rand_ratio)) =
       neutron_rate state"
    "impurity_concentration
       (fst (advance_plasma_state_call (Separate_object state) control dt rand_ratio)) =
       impurity_concentration state"
    "radiation_power (fst (advance_plasma_state_call (Separate_object state) control dt rand_ratio)) =
       radiation_power state"
    unfolding eq by simp_all
  from sep [of state] cur tgt fields show ?thesis by blast
qed

text \<open>
  Claim C9 as first stated fails: with \<^verbatim>\<open>state\<close> the \<^verbatim>\<open>current_state\<close> member of the
  control structure, the call changes the control structure; the plasma current held
  there goes from 15 to 14.97.
\<close>

theorem control_changed_counterexample:
  "snd (advance_plasma_state_call Current_state_member scenario_control (Fin 0.001) 0.5) \<noteq>
     scenario_control \<and>
   plasma_current (current_state scenario_control) = Fin 15 \<and>
   plasma_current
     (current_state
        (snd (advance_plasma_state_call Current_state_member scenario_control (Fin 0.001) 0.5))) =
     Fin 14.97"
proof -
  have a: "plasma_current (current_state scenario_control) = Fin 15"
    by (simp add: scenario_control_def scenario_state_def)
  have b: "plasma_current
     (current_state
        (snd (advance_plasma_state_call Current_state_member scenario_control (Fin 0.001) 0.5))) =
     Fin 14.97"
    by (simp add: advance_plasma_state_call_def Let_def advance_plasma_state_fields(1))
      (simp add: scenario_control_def scenario_state_def)
  from a b have "snd (advance_plasma_state_call Current_state_member scenario_control (Fin 0.001) 0.5) \<noteq>
     scenario_control" by auto
  with a b show ?thesis by blast
qed

section \<open>The activity level\<close>

lemmas literal_defs = lit_0_1f_def lit_0_05f_def lit_0_3f_def lit_0_7f_def lit_0_95f_def

lemma current_evolution_mhd:
  "current_evolution (s\<lparr>mhd_activity_level := m\<rparr>) c dt =
     (current_evolution s c dt)\<lparr>mhd_activity_level := m\<rparr>"
  by (simp add: current_evolution_def Let_def)

lemma energy_balance_mhd:
  "energy_balance (s\<lparr>mhd_activity_level := m\<rparr>) c dt =
     (energy_balance s c dt)\<lparr>mhd_activity_level := m\<rparr>"
  by (simp add: energy_balance_def Let_def)

lemma plasma_volume_of_mhd:
  "plasma_volume_of (s\<lparr>mhd_activity_level := m\<rparr>) = plasma_volume_of s"
  by (simp add: plasma_volume_of_def)

lemma temperature_update_mhd:
  "temperature_update (s\<lparr>mhd_activity_level := m\<rparr>) v =
     (temperature_update s v)\<lparr>mhd_activity_level := m\<rparr>"
  by (simp add: temperature_update_def)

lemma density_evolution_mhd:
  "density_evolution (s\<lparr>mhd_activity_level := m\<rparr>) c dt v =
     (density_evolution s c dt v)\<lparr>mhd_activity_level := m\<rparr>"
  by (simp add: density_evolution_def Let_def)

lemma position_evolution_mhd:
  "position_evolution (s\<lparr>mhd_activity_level := m\<rparr>) c dt v =
     (position_evolution s c dt v)\<lparr>mhd_activity_level := m\<rparr>"
  by (simp add: position_evolution_def Let_def)

lemma stability_updates_mhd:
  "stability_updates (s\<lparr>mhd_activity_level := m\<rparr>) c u = stability_updates s c u"
  by (simp add: stability_updates_def Let_def safety_factor_profile_value
      calculate_beta_normalized_value)

lemma advance_plasma_state_mhd:
  "advance_plasma_state (state\<lparr>mhd_activity_level := m\<rparr>) control dt u =
     advance_plasma_state state control dt u"
  by (simp add: advance_plasma_state_def Let_def current_evolution_mhd energy_balance_mhd
      plasma_volume_of_mhd temperature_update_mhd density_evolution_mhd position_evolution_mhd
      stability_updates_mhd)

lemma float_of_in_range:
  assumes "\<bar>a\<bar> < FLT_OVERFLOW"
  shows "\<exists>y. float_of (Fin a) = Fin y"
  using assms by (auto simp add: abs_if split: if_splits)

lemma mhd_activity_level_finite:
  assumes "simulation_time control = Fin t" and "\<bar>t\<bar> \<le> 10 ^ 36"
  shows "\<exists>m y. mhd_activity_level (fst (advance_plasma_state state control dt u)) = Fin m \<and>
             13421773 / 2 ^ 27 * sin y + 13421773 / 2 ^ 28 * u \<le> m \<and>
             m \<le> 13421773 / 2 ^ 27 * sin y + 13421773 / 2 ^ 28 * u + 3 / 2"
proof -
  from assms(2) have "\<bar>t * 100\<bar> < FLT_OVERFLOW"
    by (simp add: FLT_OVERFLOW_def abs_mult)
  then obtain y where y: "float_of (Fin (t * 100)) = Fin y"
    using float_of_in_range by blast
  define P :: real where
    "P = (if safety_factor_q95 (fst (advance_plasma_state state control dt u)) < SAFETY_FACTOR_Q95_MIN
          then 1 / 2 else 0) +
         (if BETA_NORMAL_LIMIT < beta_normalized (fst (advance_plasma_state state control dt u))
          then 5033165 / 2 ^ 24 else 0) +
         (if VERTICAL_DISPLACEMENT_MAX <
             fabsf (vertical_position (fst (advance_plasma_state state control dt u)))
          then 11744051 / 2 ^ 24 else 0)"
  have P: "0 \<le> P" "P \<le> 3 / 2"
    by (simp_all add: P_def)
  have "mhd_activity_level (fst (advance_plasma_state state control dt u)) =
          Fin (13421773 / 2 ^ 27 * sin y + 13421773 / 2 ^ 28 * u + P)"
    by (simp add: advance_plasma_state_fields(8) assms(1) y literal_defs P_def del: float_of.simps)
  with P show ?thesis
    by (intro exI [of _ "13421773 / 2 ^ 27 * sin y + 13421773 / 2 ^ 28 * u + P"] exI [of _ y]) simp
qed

lemma mhd_activity_level_nonfinite:
  assumes "float_of (simulation_time control * Fin 100) = PInf \<or>
           float_of (simulation_time control * Fin 100) = NInf \<or>
           float_of (simulation_time control * Fin 100) = NaN"
  shows "mhd_activity_level (fst (advance_plasma_state state control dt u)) = NaN"
  using assms by (auto simp add: advance_plasma_state_fields(8) literal_defs)

text \<open>
  Claim C10, amended. The step overwrites \<open>mhd_activity_level\<close>: two states that differ
  only in this field have the same level after a step with the same control structure,
  time step and random draw. When moreover the clock \<open>simulation_time\<close> is finite with
  an absolute value of at most \<^verbatim>\<open>10^36\<close> (so that \<^verbatim>\<open>simulation_time * 100.0f\<close> does not
  overflow) and the draw lies in \<open>[0, 1]\<close>, the level after the step is finite and lies
  in \<open>[-0.1001, 1.6501]\<close>; the bounds leave room for the float constants
  \<^verbatim>\<open>0.1f\<close>, \<^verbatim>\<open>0.05f\<close>, \<^verbatim>\<open>0.3f\<close> and \<^verbatim>\<open>0.7f\<close>, which are not the decimals.
\<close>

theorem mhd_activity_level_overwritten:
  "mhd_activity_level
     (fst (advance_plasma_state (state\<lparr>mhd_activity_level := m\<rparr>) control dt rand_ratio)) =
   mhd_activity_level (fst (advance_plasma_state state control dt rand_ratio)) \<and>
   (simulation_time control = Fin t \<longrightarrow> \<bar>t\<bar> \<le> 10 ^ 36 \<longrightarrow>
    0 \<le> rand_ratio \<longrightarrow> rand_ratio \<le> 1 \<longrightarrow>
    (\<exists>x. mhd_activity_level (fst (advance_plasma_state state control dt rand_ratio)) = Fin x \<and>
         - 0.1001 \<le> x \<and> x \<le> 1.6501))"
proof (intro conjI impI)
  show "mhd_activity_level
     (fst (advance_plasma_state (state\<lparr>mhd_activity_level := m\<rparr>) control dt rand_ratio)) =
   mhd_activity_level (fst (advance_plasma_state state control dt rand_ratio))"
    by (simp add: advance_plasma_state_mhd)
next
  assume clock: "simulation_time control = Fin t" and range: "\<bar>t\<bar> \<le> 10 ^ 36"
    and r0: "0 \<le> rand_ratio" and r1: "rand_ratio \<le> 1"
  obtain x y where x: "mhd_activity_level (fst (advance_plasma_state state control dt rand_ratio)) = Fin x"
    and lo: "13421773 / 2 ^ 27 * sin y + 13421773 / 2 ^ 28 * rand_ratio \<le> x"
    and hi: "x \<le> 13421773 / 2 ^ 27 * sin y + 13421773 / 2 ^ 28 * rand_ratio + 3 / 2"
    using mhd_activity_level_finite [OF clock range] by blast
  define S where "S = sin y"
  have "- 1 \<le> S" "S \<le> 1" by (simp_all add: S_def)
  with lo hi r0 r1 have "- 0.1001 \<le> x \<and> x \<le> 1.6501"
    unfolding S_def [symmetric] by simp
  with x show "\<exists>x. mhd_activity_level (fst (advance_plasma_state state control dt rand_ratio)) = Fin x \<and>
         - 0.1001 \<le> x \<and> x \<le> 1.6501" by blast
qed

theorem mhd_activity_level_overwritten_witness:
  "mhd_activity_level
     (fst (advance_plasma_state (scenario_state\<lparr>mhd_activity_level := Fin 1000\<rparr>)
            scenario_control (Fin 0.001) 0.5)) =
   mhd_activity_level (fst (advance_plasma_state scenario_state scenario_control (Fin 0.001) 0.5)) \<and>
   simulation_time scenario_control = Fin 0 \<and> \<bar>0::real\<bar> \<le> 10 ^ 36 \<and>
   (0::real) \<le> 0.5 \<and> (0.5::real) \<le> 1 \<and>
   (\<exists>x. mhd_activity_level (fst (advance_plasma_state scenario_state scenario_control (Fin 0.001) 0.5)) = Fin x \<and>
        - 0.1001 \<le> x \<and> x \<le> 1.6501)"
  using mhd_activity_level_overwritten [where control = scenario_control and t = 0
      and rand_ratio = "0.5" and m = "Fin 1000" and state = scenario_state and dt = "Fin 0.001"]
  by (simp add: scenario_control_def)

text \<open>
  Claim C10 as first stated fails: the clock \<^verbatim>\<open>2^123\<close> is a float, the product
  \<^verbatim>\<open>simulation_time * 100.0f\<close> overflows to an infinity, \<^verbatim>\<open>sinf\<close> returns a NaN and the
  level after the step is a NaN, which is not in \<open>[-0.1, 1.65]\<close>, with a draw of 0.5.
\<close>

theorem mhd_activity_level_bound_counterexample:
  "simulation_time (scenario_control\<lparr>simulation_time := Fin (2 ^ 123)\<rparr>) = Fin (2 ^ 123) \<and>
   (0::real) \<le> 0.5 \<and> (0.5::real) \<le> 1 \<and>
   mhd_activity_level
     (fst (advance_plasma_state scenario_state (scenario_control\<lparr>simulation_time := Fin (2 ^ 123)\<rparr>)
            (Fin 0.001) 0.5)) = NaN \<and>
   \<not> (Fin (- 0.1) \<le>
        mhd_activity_level
          (fst (advance_plasma_state scenario_state
                 (scenario_control\<lparr>simulation_time := Fin (2 ^ 123)\<rparr>) (Fin 0.001) 0.5)) \<and>
      mhd_activity_level
        (fst (advance_plasma_state scenario_state
               (scenario_control\<lparr>simulation_time := Fin (2 ^ 123)\<rparr>) (Fin 0.001) 0.5)) \<le> Fin 1.65)"
proof -
  have "float_of (simulation_time (scenario_control\<lparr>simulation_time := Fin (2 ^ 123)\<rparr>) * Fin 100) = PInf"
    by (simp add: FLT_OVERFLOW_def)
  then have "mhd_activity_level
     (fst (advance_plasma_state scenario_state (scenario_control\<lparr>simulation_time := Fin (2 ^ 123)\<rparr>)
            (Fin 0.001) 0.5)) = NaN"
    by (intro mhd_activity_level_nonfinite) blast
  then show ?thesis by simp
qed

section \<open>The disruption penalties\<close>

text \<open>
  One step from a variant of the scenario, with \<open>dt = 0.001\<close>: the fields it writes, in
  closed form, and which of the three disruption conditions hold after it.
\<close>

lemma scenario_variant_fields:
  "plasma_current (scenario_variant I W z) = Fin I"
  "stored_energy (scenario_variant I W z) = Fin W"
  "vertical_position (scenario_variant I W z) = Fin z"
  "density_core (scenario_variant I W z) = Fin 1"
  "elongation (scenario_variant I W z) = Fin 1.7"
  by (simp_all add: scenario_variant_def scenario_state_def)

lemma scenario_at_clock_fields:
  "pf_coil_currents (scenario_at_clock t) ! 0 = Fin 0"
  "heating_power_sum (heating_systems (scenario_at_clock t)) = Fin 10"
  "energy_confinement_time_ctl (scenario_at_clock t) = Fin 5"
  "fuel_injection_rate (scenario_at_clock t) = Fin 0"
  "vertical_force_sum (vertical_coil_currents (scenario_at_clock t)) (Fin x) = Fin 0"
  "simulation_time (scenario_at_clock t) = t"
  by (simp_all add: scenario_at_clock_def scenario_control_def heating_power_sum_unfold Let_def
      vertical_force_sum_unfold)

lemma wf_scenario_at_clock: "wf_control (scenario_at_clock t)"
  using wf_scenario_control by (simp add: wf_control_def scenario_at_clock_def)

lemma variant_plasma_current:
  "plasma_current
     (fst (advance_plasma_state (scenario_variant I W z) (scenario_at_clock t) (Fin (1 / 1000)) u)) =
   Fin (I * 0.998)"
  by (simp add: advance_plasma_state_fields(1) scenario_variant_fields scenario_at_clock_fields)

lemma variant_density_core:
  "density_core
     (fst (advance_plasma_state (scenario_variant I W z) (scenario_at_clock t) (Fin (1 / 1000)) u)) =
   Fin 0.9999"
  by (simp add: advance_plasma_state_fields(4) scenario_variant_fields scenario_at_clock_fields
      plasma_volume_of_def device_defs)

lemma variant_stored_energy:
  "stored_energy
     (fst (advance_plasma_state (scenario_variant I W z) (scenario_at_clock t) (Fin (1 / 1000)) u)) =
   Fin (W + (10 - W / 5) / 1000)"
  by (simp add: advance_plasma_state_fields(2) scenario_variant_fields scenario_at_clock_fields)

lemma variant_vertical_position:
  "vertical_position
     (fst (advance_plasma_state (scenario_variant I W z) (scenario_at_clock t) (Fin (1 / 1000)) u)) =
   Fin (1001 * z / 1000 - 312500000000000 * z / (230474481176907 * (pi * pi)))"
  by (simp add: advance_plasma_state_fields(5) variant_plasma_current variant_density_core
      plasma_volume_of_def device_defs scenario_variant_fields scenario_at_clock_fields)

lemma variant_beta_normalized:
  assumes "I \<noteq> 0"
  shows "beta_normalized
     (fst (advance_plasma_state (scenario_variant I W z) (scenario_at_clock t) (Fin (1 / 1000)) u)) =
   Fin ((39795707531250000000000000000000000000 * W +
         (397957075312500000000000000000000000000 -
          7959141506250000000000000000000000000 * W) / 1000) /
        (1547959283437500000000000000000000000 *
         (pi * ((2809 / 100 + 249001 * (I * I) / 2250000) * I))))"
proof -
  have "0 < 2809 / 100 + 249001 * (I * I) / 2250000"
    by (intro add_pos_nonneg) simp_all
  then have pos: "2809 / 100 + 249001 * (I * I) / 2250000 \<noteq> 0"
    "\<not> 2809 / 100 + 249001 * (I * I) / 2250000 < 0"
    by simp_all
  show ?thesis
    using assms pos
    by (simp add: advance_plasma_state_fields(7) calculate_beta_normalized_value
        variant_plasma_current variant_density_core device_defs)
      (simp add: advance_plasma_state_fields(3) variant_stored_energy plasma_volume_of_def
        device_defs scenario_variant_fields)
qed

lemma pi_square_ge_4: "4 \<le> pi * pi"
proof -
  have "2 * 2 \<le> pi * pi"
    by (rule mult_mono) (use pi_ge_two in simp_all)
  then show ?thesis by simp
qed

lemma variant_q95_fires:
  "safety_factor_q95
     (fst (advance_plasma_state (scenario_variant 15 W z) (scenario_at_clock t) (Fin (1 / 1000)) u))
   < SAFETY_FACTOR_Q95_MIN"
  "\<not> safety_factor_q95
       (fst (advance_plasma_state (scenario_variant 1 W z) (scenario_at_clock t) (Fin (1 / 1000)) u))
     < SAFETY_FACTOR_Q95_MIN"
  by (simp_all add: advance_plasma_state_fields(6) safety_factor_profile_value
      variant_plasma_current device_defs literal_defs FLT_OVERFLOW_def FLT_UNDERFLOW_def)

lemma variant_vertical_fires:
  "\<not> VERTICAL_DISPLACEMENT_MAX <
     fabsf (vertical_position
       (fst (advance_plasma_state (scenario_variant I W 0) (scenario_at_clock t) (Fin (1 / 1000)) u)))"
  "VERTICAL_DISPLACEMENT_MAX <
     fabsf (vertical_position
       (fst (advance_plasma_state (scenario_variant I W 1) (scenario_at_clock t) (Fin (1 / 1000)) u)))"
proof -
  show "\<not> VERTICAL_DISPLACEMENT_MAX <
     fabsf (vertical_position
       (fst (advance_plasma_state (scenario_variant I W 0) (scenario_at_clock t) (Fin (1 / 1000)) u)))"
    by (simp add: variant_vertical_position VERTICAL_DISPLACEMENT_MAX_def)
  define p where "p = pi * pi"
  have p: "4 \<le> p" unfolding p_def by (rule pi_square_ge_4)
  then have "312500000000000 / (230474481176907 * p) < 1 / 2"
    by (simp add: field_simps)
  then have "5033165 / 33554432 < \<bar>1001 / 1000 - 312500000000000 / (230474481176907 * p)\<bar>"
    by simp
  then show "VERTICAL_DISPLACEMENT_MAX <
     fabsf (vertical_position
       (fst (advance_plasma_state (scenario_variant I W 1) (scenario_at_clock t) (Fin (1 / 1000)) u)))"
    by (simp add: variant_vertical_position p_def VERTICAL_DISPLACEMENT_MAX_def)
qed

lemma variant_beta_fires:
  "\<not> BETA_NORMAL_LIMIT <
     beta_normalized
       (fst (advance_plasma_state (scenario_variant 15 5 z) (scenario_at_clock t) (Fin (1 / 1000)) u))"
  "\<not> BETA_NORMAL_LIMIT <
     beta_normalized
       (fst (advance_plasma_state (scenario_variant 1 5 z) (scenario_at_clock t) (Fin (1 / 1000)) u))"
  "BETA_NORMAL_LIMIT <
     beta_normalized
       (fst (advance_plasma_state (scenario_variant 15 1000 z) (scenario_at_clock t) (Fin (1 / 1000)) u))"
  "BETA_NORMAL_LIMIT <
     beta_normalized
       (fst (advance_plasma_state (scenario_variant 1 1000 z) (scenario_at_clock t) (Fin (1 / 1000)) u))"
  "\<not> BETA_NORMAL_LIMIT <
     beta_normalized
       (fst (advance_plasma_state (scenario_variant 15 100 z) (scenario_at_clock t) (Fin (1 / 1000)) u))"
  "BETA_NORMAL_LIMIT <
     beta_normalized
       (fst (advance_plasma_state (scenario_variant 1 100 z) (scenario_at_clock t) (Fin (1 / 1000)) u))"
  using pi_ge_two pi_less_4
  by (simp_all add: variant_beta_normalized field_simps BETA_NORMAL_LIMIT_def)

lemma mhd_activity_level_Fin:
  assumes "float_of (simulation_time control * Fin 100) = Fin y"
  shows "mhd_activity_level (fst (advance_plasma_state state control dt u)) =
           Fin (13421773 / 2 ^ 27 * sin y + 13421773 / 2 ^ 28 * u +
                (if safety_factor_q95 (fst (advance_plasma_state state control dt u)) <
                    SAFETY_FACTOR_Q95_MIN
                 then 1 / 2 else 0) +
                (if BETA_NORMAL_LIMIT < beta_normalized (fst (advance_plasma_state state control dt u))
                 then 5033165 / 2 ^ 24 else 0) +
                (if VERTICAL_DISPLACEMENT_MAX <
                    fabsf (vertical_position (fst (advance_plasma_state state control dt u)))
                 then 11744051 / 2 ^ 24 else 0))"
  by (simp add: advance_plasma_state_fields(8) assms literal_defs del: float_of.simps)

text \<open>
  Claim C1, amended. After a step, \<open>safety_factor_q95\<close> and \<open>beta_normalized\<close> are the
  values that the two kernels give on the state the step returns, and
  \<open>mhd_activity_level\<close> is the sum, in the arithmetic of float values, of the base term
  \<^verbatim>\<open>0.1f * sinf(simulation_time * 100.0f) + 0.05f * rand_ratio\<close>, of \<^verbatim>\<open>0.5f\<close> exactly
  when the new \<open>safety_factor_q95\<close> is below \<^verbatim>\<open>3.0f\<close>, of \<^verbatim>\<open>0.3f\<close> exactly when the new
  \<open>beta_normalized\<close> is above \<^verbatim>\<open>3.5f\<close>, and of \<^verbatim>\<open>0.7f\<close> exactly when the absolute value
  of the new vertical position is above \<^verbatim>\<open>0.15f\<close>, all of them float constants. Each of
  the eight combinations of the three conditions occurs for some well-formed input.
  Take two steps with the same random ratio and the same finite simulation clock, of
  absolute value at most \<^verbatim>\<open>10^36\<close> (so that \<^verbatim>\<open>simulation_time * 100.0f\<close> does not
  overflow), in which the conditions on beta and on the vertical position agree: if the
  condition on \<open>q95\<close> holds in the first and not in the second, both levels are finite
  numbers and the first exceeds the second by 0.5, to within 0.0001 (the additions of
  the code round).
\<close>

theorem disruption_penalties:
  fixes state state2 :: PlasmaState and control control2 :: PlasmaControlSystem
    and dt dt2 :: cfloat and rand_ratio t :: real
  defines "s' \<equiv> fst (advance_plasma_state state control dt rand_ratio)"
  defines "s2' \<equiv> fst (advance_plasma_state state2 control2 dt2 rand_ratio)"
  shows
    "safety_factor_q95 s' = safety_factor_profile lit_0_95f s' \<and>
     beta_normalized s' = calculate_beta_normalized s' \<and>
     mhd_activity_level s' =
       lit_0_1f * sinf (float_of (simulation_time control * Fin 100)) + lit_0_05f * Fin rand_ratio +
       (if safety_factor_q95 s' < SAFETY_FACTOR_Q95_MIN then Fin 0.5 else Fin 0) +
       (if beta_normalized s' > BETA_NORMAL_LIMIT then lit_0_3f else Fin 0) +
       (if fabsf (vertical_position s') > VERTICAL_DISPLACEMENT_MAX then lit_0_7f else Fin 0) \<and>
     (\<forall>bq bb bz. \<exists>st ct d u.
        wf_control ct \<and>
        (safety_factor_q95 (fst (advance_plasma_state st ct d u)) < SAFETY_FACTOR_Q95_MIN) = bq \<and>
        (beta_normalized (fst (advance_plasma_state st ct d u)) > BETA_NORMAL_LIMIT) = bb \<and>
        (fabsf (vertical_position (fst (advance_plasma_state st ct d u))) > VERTICAL_DISPLACEMENT_MAX) = bz) \<and>
     (simulation_time control = Fin t \<longrightarrow> simulation_time control2 = Fin t \<longrightarrow> \<bar>t\<bar> \<le> 10 ^ 36 \<longrightarrow>
      (beta_normalized s' > BETA_NORMAL_LIMIT) = (beta_normalized s2' > BETA_NORMAL_LIMIT) \<longrightarrow>
      (fabsf (vertical_position s') > VERTICAL_DISPLACEMENT_MAX) =
        (fabsf (vertical_position s2') > VERTICAL_DISPLACEMENT_MAX) \<longrightarrow>
      safety_factor_q95 s' < SAFETY_FACTOR_Q95_MIN \<longrightarrow>
      \<not> safety_factor_q95 s2' < SAFETY_FACTOR_Q95_MIN \<longrightarrow>
      (\<exists>a b. mhd_activity_level s' = Fin a \<and> mhd_activity_level s2' = Fin b \<and>
             b + 0.4999 \<le> a \<and> a \<le> b + 0.5001))"
proof (intro conjI impI allI)
  show "safety_factor_q95 s' = safety_factor_profile lit_0_95f s'"
    unfolding s'_def by (rule advance_plasma_state_fields(6))
  show "beta_normalized s' = calculate_beta_normalized s'"
    unfolding s'_def by (rule advance_plasma_state_fields(7))
  show "mhd_activity_level s' =
       lit_0_1f * sinf (float_of (simulation_time control * Fin 100)) + lit_0_05f * Fin rand_ratio +
       (if safety_factor_q95 s' < SAFETY_FACTOR_Q95_MIN then Fin 0.5 else Fin 0) +
       (if beta_normalized s' > BETA_NORMAL_LIMIT then lit_0_3f else Fin 0) +
       (if fabsf (vertical_position s') > VERTICAL_DISPLACEMENT_MAX then lit_0_7f else Fin 0)"
    unfolding s'_def by (rule advance_plasma_state_fields(8))
next
  fix bq bb bz :: bool
  define st where "st = scenario_variant (if bq then 15 else 1) (if bb then 1000 else 5)
                          (if bz then 1 else 0)"
  define ct where "ct = scenario_at_clock (Fin 0)"
  have "wf_control ct"
    unfolding ct_def by (rule wf_scenario_at_clock)
  moreover have "(safety_factor_q95 (fst (advance_plasma_state st ct (Fin (1 / 1000)) 0)) <
                   SAFETY_FACTOR_Q95_MIN) = bq"
    unfolding st_def ct_def by (simp add: variant_q95_fires)
  moreover have "(beta_normalized (fst (advance_plasma_state st ct (Fin (1 / 1000)) 0)) >
                   BETA_NORMAL_LIMIT) = bb"
    unfolding st_def ct_def by (cases bq) (simp_all add: variant_beta_fires)
  moreover have "(fabsf (vertical_position (fst (advance_plasma_state st ct (Fin (1 / 1000)) 0))) >
                   VERTICAL_DISPLACEMENT_MAX) = bz"
    unfolding st_def ct_def by (simp add: variant_vertical_fires)
  ultimately show "\<exists>st ct d u.
        wf_control ct \<and>
        (safety_factor_q95 (fst (advance_plasma_state st ct d u)) < SAFETY_FACTOR_Q95_MIN) = bq \<and>
        (beta_normalized (fst (advance_plasma_state st ct d u)) > BETA_NORMAL_LIMIT) = bb \<and>
        (fabsf (vertical_position (fst (advance_plasma_state st ct d u))) > VERTICAL_DISPLACEMENT_MAX) = bz"
    by blast
next
  assume clock: "simulation_time control = Fin t" and clock2: "simulation_time control2 = Fin t"
    and t: "\<bar>t\<bar> \<le> 10 ^ 36"
    and b: "(beta_normalized s' > BETA_NORMAL_LIMIT) = (beta_normalized s2' > BETA_NORMAL_LIMIT)"
    and z: "(fabsf (vertical_position s') > VERTICAL_DISPLACEMENT_MAX) =
            (fabsf (vertical_position s2') > VERTICAL_DISPLACEMENT_MAX)"
    and q: "safety_factor_q95 s' < SAFETY_FACTOR_Q95_MIN"
    and q2: "\<not> safety_factor_q95 s2' < SAFETY_FACTOR_Q95_MIN"
  from t have "\<bar>t * 100\<bar> < FLT_OVERFLOW"
    by (simp add: FLT_OVERFLOW_def abs_mult)
  then obtain y where "float_of (Fin (t * 100)) = Fin y"
    using float_of_in_range by blast
  then have y: "float_of (simulation_time control * Fin 100) = Fin y"
    "float_of (simulation_time control2 * Fin 100) = Fin y"
    by (simp_all add: clock clock2 del: float_of.simps)
  from b z q q2 show "\<exists>a b. mhd_activity_level s' = Fin a \<and> mhd_activity_level s2' = Fin b \<and>
             b + 0.4999 \<le> a \<and> a \<le> b + 0.5001"
    unfolding s'_def s2'_def
    by (simp add: mhd_activity_level_Fin [OF y(1)] mhd_activity_level_Fin [OF y(2)])
qed

theorem disruption_penalties_witness:
  "simulation_time (scenario_at_clock (Fin 0)) = Fin 0 \<and>
   \<bar>0::real\<bar> \<le> 10 ^ 36 \<and>
   (beta_normalized
      (fst (advance_plasma_state (scenario_variant 15 5 0) (scenario_at_clock (Fin 0)) (Fin 0.001) 0.5)) > BETA_NORMAL_LIMIT) =
   (beta_normalized
      (fst (advance_plasma_state (scenario_variant 1 5 0) (scenario_at_clock (Fin 0)) (Fin 0.001) 0.5)) > BETA_NORMAL_LIMIT) \<and>
   (fabsf (vertical_position
      (fst (advance_plasma_state (scenario_variant 15 5 0) (scenario_at_clock (Fin 0)) (Fin 0.001) 0.5))) > VERTICAL_DISPLACEMENT_MAX) =
   (fabsf (vertical_position
      (fst (advance_plasma_state (scenario_variant 1 5 0) (scenario_at_clock (Fin 0)) (Fin 0.001) 0.5))) > VERTICAL_DISPLACEMENT_MAX) \<and>
   safety_factor_q95
      (fst (advance_plasma_state (scenario_variant 15 5 0) (scenario_at_clock (Fin 0)) (Fin 0.001) 0.5)) < SAFETY_FACTOR_Q95_MIN \<and>
   \<not> safety_factor_q95
      (fst (advance_plasma_state (scenario_variant 1 5 0) (scenario_at_clock (Fin 0)) (Fin 0.001) 0.5)) < SAFETY_FACTOR_Q95_MIN \<and>
   (\<exists>a b. mhd_activity_level
      (fst (advance_plasma_state (scenario_variant 15 5 0) (scenario_at_clock (Fin 0)) (Fin 0.001) 0.5)) = Fin a \<and>
          mhd_activity_level
      (fst (advance_plasma_state (scenario_variant 1 5 0) (scenario_at_clock (Fin 0)) (Fin 0.001) 0.5)) = Fin b \<and>
          b + 0.4999 \<le> a \<and> a \<le> b + 0.5001)"
proof -
  let ?A = "
      (fst (advance_plasma_state (scenario_variant 15 5 0) (scenario_at_clock (Fin 0)) (Fin 0.001) 0.5))"
  let ?B = "
      (fst (advance_plasma_state (scenario_variant 1 5 0) (scenario_at_clock (Fin 0)) (Fin 0.001) 0.5))"
  have clock: "simulation_time (scenario_at_clock (Fin 0)) = Fin 0"
    by (simp add: scenario_at_clock_fields)
  have t: "\<bar>0::real\<bar> \<le> 10 ^ 36" by simp
  have b: "(beta_normalized ?A > BETA_NORMAL_LIMIT) = (beta_normalized ?B > BETA_NORMAL_LIMIT)"
    by (simp add: variant_beta_fires)
  have z: "(fabsf (vertical_position ?A) > VERTICAL_DISPLACEMENT_MAX) =
           (fabsf (vertical_position ?B) > VERTICAL_DISPLACEMENT_MAX)"
    by (simp add: variant_vertical_fires)
  have q: "safety_factor_q95 ?A < SAFETY_FACTOR_Q95_MIN"
    and q2: "\<not> safety_factor_q95 ?B < SAFETY_FACTOR_Q95_MIN"
    by (simp_all add: variant_q95_fires)
  note disruption_penalties [where state = "scenario_variant 15 5 0"
      and control = "scenario_at_clock (Fin 0)" and dt = "Fin 0.001" and rand_ratio = "0.5"
      and ?state2.0 = "scenario_variant 1 5 0" and ?control2.0 = "scenario_at_clock (Fin 0)"
      and ?dt2.0 = "Fin 0.001" and t = 0,
      THEN conjunct2, THEN conjunct2, THEN conjunct2, THEN conjunct2, rule_format,
      OF clock clock t b z q q2]
  with clock t b z q q2 show ?thesis by blast
qed

text \<open>
  Claim C1 as first stated fails in its comparison, in two ways. The first pair of
  states below differs in the plasma current only (15 and 1; the stored energy is 100
  in both), with the same control structure, clock 0, time step and random ratio: the condition on \<open>q95\<close> holds in the first step only, but the smaller
  current raises the normalized beta, the condition on beta holds in the second step
  only, and the first level is not the second plus 0.5 or more. The second pair has the
  float \<^verbatim>\<open>2^123\<close> as its clock: the conditions on beta and on the vertical position
  hold in neither step, \<^verbatim>\<open>simulation_time * 100.0f\<close> overflows, both levels are NaN,
  and no NaN is at least another value plus 0.5.
\<close>

theorem disruption_penalty_difference_counterexample:
  "safety_factor_q95
      (fst (advance_plasma_state (scenario_variant 15 100 0) (scenario_at_clock (Fin 0)) (Fin 0.001) 0.5)) < SAFETY_FACTOR_Q95_MIN \<and>
   \<not> safety_factor_q95
      (fst (advance_plasma_state (scenario_variant 1 100 0) (scenario_at_clock (Fin 0)) (Fin 0.001) 0.5)) < SAFETY_FACTOR_Q95_MIN \<and>
   \<not> (mhd_activity_level
      (fst (advance_plasma_state (scenario_variant 1 100 0) (scenario_at_clock (Fin 0)) (Fin 0.001) 0.5)) + Fin 0.5 \<le>
      mhd_activity_level
      (fst (advance_plasma_state (scenario_variant 15 100 0) (scenario_at_clock (Fin 0)) (Fin 0.001) 0.5))) \<and>
   (beta_normalized
      (fst (advance_plasma_state (scenario_variant 15 5 0) (scenario_at_clock (Fin (2 ^ 123))) (Fin 0.001) 0.5)) > BETA_NORMAL_LIMIT) =
   (beta_normalized
      (fst (advance_plasma_state (scenario_variant 1 5 0) (scenario_at_clock (Fin (2 ^ 123))) (Fin 0.001) 0.5)) > BETA_NORMAL_LIMIT) \<and>
   (fabsf (vertical_position
      (fst (advance_plasma_state (scenario_variant 15 5 0) (scenario_at_clock (Fin (2 ^ 123))) (Fin 0.001) 0.5))) > VERTICAL_DISPLACEMENT_MAX) =
   (fabsf (vertical_position
      (fst (advance_plasma_state (scenario_variant 1 5 0) (scenario_at_clock (Fin (2 ^ 123))) (Fin 0.001) 0.5))) > VERTICAL_DISPLACEMENT_MAX) \<and>
   safety_factor_q95
      (fst (advance_plasma_state (scenario_variant 15 5 0) (scenario_at_clock (Fin (2 ^ 123))) (Fin 0.001) 0.5)) < SAFETY_FACTOR_Q95_MIN \<and>
   \<not> safety_factor_q95
      (fst (advance_plasma_state (scenario_variant 1 5 0) (scenario_at_clock (Fin (2 ^ 123))) (Fin 0.001) 0.5)) < SAFETY_FACTOR_Q95_MIN \<and>
   \<not> (mhd_activity_level
      (fst (advance_plasma_state (scenario_variant 1 5 0) (scenario_at_clock (Fin (2 ^ 123))) (Fin 0.001) 0.5)) + Fin 0.5 \<le>
      mhd_activity_level
      (fst (advance_plasma_state (scenario_variant 15 5 0) (scenario_at_clock (Fin (2 ^ 123))) (Fin 0.001) 0.5)))"
proof -
  have y: "float_of (simulation_time (scenario_at_clock (Fin 0)) * Fin 100) = Fin 0"
    by (simp add: scenario_at_clock_fields FLT_OVERFLOW_def FLT_UNDERFLOW_def)
  have n: "float_of (simulation_time (scenario_at_clock (Fin (2 ^ 123))) * Fin 100) = PInf"
    by (simp add: scenario_at_clock_fields FLT_OVERFLOW_def)
  show ?thesis
    by (simp add: variant_beta_fires variant_vertical_fires variant_q95_fires
        mhd_activity_level_Fin [OF y] mhd_activity_level_nonfinite [OF disjI1, OF n, simplified])
qed

end
